theory Spec2Isabelle
  imports Complex_Main
begin

section \<open>Python strings\<close>

text \<open>
  A Python \<open>str\<close> is modelled as a HOL \<open>string\<close>: the characters are the code points
  below 256.  On that alphabet the regular-expression class \<open>\d\<close> is the ten ASCII
  digits, \<open>\s\<close> is the set of characters for which \<open>str.isspace\<close> holds, and
  \<open>str.lower\<close> moves \<open>A-Z\<close> and the upper-case Latin-1 letters down by 32.
\<close>

definition py_lower_char :: "char \<Rightarrow> char" where
  "py_lower_char c =
     (let n = (of_char c :: nat)
      in if (65 \<le> n \<and> n \<le> 90) \<or> (192 \<le> n \<and> n \<le> 222 \<and> n \<noteq> 215)
         then char_of (n + 32) else c)"

definition py_lower :: "string \<Rightarrow> string" where
  "py_lower s = map py_lower_char s"

text \<open>
  \<open>d.get(k)\<close> on a dict written as the list of its entries: the value of the entry with
  key \<open>k\<close>, \<open>None\<close> for a missing key.
\<close>

fun dict_get :: "('k \<times> 'v) list \<Rightarrow> 'k \<Rightarrow> 'v option" where
  "dict_get [] k = None"
| "dict_get ((a, b) # ps) k = (if a = k then Some b else dict_get ps k)"

section \<open>Minimum trip duration (server/main.py)\<close>

text \<open>
  The distance matrix of \<open>calculate_minimum_duration\<close>, in the order of the source: one
  constant for the inner dict of each row, named after the row's key, and the outer dict
  over them.  A Python dict literal keeps the last value of a repeated key; no key is
  repeated here, neither among the rows nor inside a row.
\<close>

definition row_kerala :: "(string \<times> nat) list" where
  "row_kerala = [
     (''tamil nadu'', 650), (''karnataka'', 350), (''andhra pradesh'', 700),
     (''telangana'', 800), (''goa'', 600), (''mumbai'', 1200), (''maharashtra'', 1200),
     (''gujarat'', 1500), (''rajasthan'', 1800), (''delhi'', 2200), (''haryana'', 2200),
     (''punjab'', 2300), (''uttarakhand'', 2000), (''himachal pradesh'', 2100),
     (''kashmir'', 2500), (''uttar pradesh'', 2000), (''madhya pradesh'', 1400),
     (''chhattisgarh'', 1300), (''jharkhand'', 1800), (''bihar'', 1900),
     (''west bengal'', 1900), (''odisha'', 1200), (''assam'', 2400), (''meghalaya'', 2400),
     (''sikkim'', 2200), (''arunachal pradesh'', 2600), (''nagaland'', 2500),
     (''manipur'', 2500), (''mizoram'', 2400), (''tripura'', 2300)
   ]"

definition row_tamil_nadu :: "(string \<times> nat) list" where
  "row_tamil_nadu = [
     (''kerala'', 650), (''karnataka'', 350), (''andhra pradesh'', 450), (''telangana'', 600),
     (''goa'', 900), (''mumbai'', 1100), (''maharashtra'', 1000), (''gujarat'', 1300),
     (''rajasthan'', 1800), (''delhi'', 2200), (''haryana'', 2200), (''punjab'', 2300),
     (''uttarakhand'', 2400), (''himachal pradesh'', 2500), (''kashmir'', 2700),
     (''uttar pradesh'', 2100), (''madhya pradesh'', 1300), (''chhattisgarh'', 1100),
     (''jharkhand'', 1600), (''bihar'', 1700), (''west bengal'', 1600), (''odisha'', 900),
     (''assam'', 2200), (''meghalaya'', 2200), (''sikkim'', 2000),
     (''arunachal pradesh'', 2400), (''nagaland'', 2300), (''manipur'', 2300),
     (''mizoram'', 2200), (''tripura'', 2100), (''chennai'', 100), (''bangalore'', 350)
   ]"

definition row_karnataka :: "(string \<times> nat) list" where
  "row_karnataka = [
     (''kerala'', 350), (''tamil nadu'', 350), (''andhra pradesh'', 500), (''telangana'', 600),
     (''goa'', 560), (''mumbai'', 980), (''maharashtra'', 800), (''gujarat'', 1100),
     (''rajasthan'', 1600), (''delhi'', 2100), (''haryana'', 2100), (''punjab'', 2200),
     (''uttarakhand'', 2300), (''himachal pradesh'', 2400), (''kashmir'', 2600),
     (''uttar pradesh'', 1900), (''madhya pradesh'', 1100), (''chhattisgarh'', 900),
     (''jharkhand'', 1400), (''bihar'', 1500), (''west bengal'', 1400), (''odisha'', 700),
     (''assam'', 2000), (''meghalaya'', 2000), (''sikkim'', 1800),
     (''arunachal pradesh'', 2200), (''nagaland'', 2100), (''manipur'', 2100),
     (''mizoram'', 2000), (''tripura'', 1900), (''bangalore'', 50), (''chennai'', 350)
   ]"

definition row_andhra_pradesh :: "(string \<times> nat) list" where
  "row_andhra_pradesh = [
     (''kerala'', 700), (''tamil nadu'', 450), (''karnataka'', 500), (''telangana'', 200),
     (''goa'', 800), (''mumbai'', 900), (''maharashtra'', 700), (''gujarat'', 1000),
     (''rajasthan'', 1500), (''delhi'', 2000), (''haryana'', 2000), (''punjab'', 2100),
     (''uttarakhand'', 2200), (''himachal pradesh'', 2300), (''kashmir'', 2500),
     (''uttar pradesh'', 1800), (''madhya pradesh'', 1000), (''chhattisgarh'', 600),
     (''jharkhand'', 1200), (''bihar'', 1300), (''west bengal'', 1200), (''odisha'', 500),
     (''assam'', 1800), (''meghalaya'', 1800), (''sikkim'', 1600),
     (''arunachal pradesh'', 2000), (''nagaland'', 1900), (''manipur'', 1900),
     (''mizoram'', 1800), (''tripura'', 1700)
   ]"

definition row_telangana :: "(string \<times> nat) list" where
  "row_telangana = [
     (''kerala'', 800), (''tamil nadu'', 600), (''karnataka'', 600), (''andhra pradesh'', 200),
     (''goa'', 900), (''mumbai'', 800), (''maharashtra'', 600), (''gujarat'', 900),
     (''rajasthan'', 1300), (''delhi'', 1800), (''haryana'', 1800), (''punjab'', 1900),
     (''uttarakhand'', 2000), (''himachal pradesh'', 2100), (''kashmir'', 2300),
     (''uttar pradesh'', 1600), (''madhya pradesh'', 800), (''chhattisgarh'', 400),
     (''jharkhand'', 1000), (''bihar'', 1100), (''west bengal'', 1000), (''odisha'', 300),
     (''assam'', 1600), (''meghalaya'', 1600), (''sikkim'', 1400),
     (''arunachal pradesh'', 1800), (''nagaland'', 1700), (''manipur'', 1700),
     (''mizoram'', 1600), (''tripura'', 1500)
   ]"

definition row_goa :: "(string \<times> nat) list" where
  "row_goa = [
     (''kerala'', 600), (''tamil nadu'', 900), (''karnataka'', 560), (''andhra pradesh'', 800),
     (''telangana'', 900), (''mumbai'', 450), (''maharashtra'', 400), (''gujarat'', 700),
     (''rajasthan'', 1200), (''delhi'', 1800), (''haryana'', 1800), (''punjab'', 1900),
     (''uttarakhand'', 2000), (''himachal pradesh'', 2100), (''kashmir'', 2200),
     (''uttar pradesh'', 1700), (''madhya pradesh'', 1000), (''chhattisgarh'', 900),
     (''jharkhand'', 1400), (''bihar'', 1500), (''west bengal'', 1400), (''odisha'', 700),
     (''assam'', 2000), (''meghalaya'', 2000), (''sikkim'', 1800),
     (''arunachal pradesh'', 2200), (''nagaland'', 2100), (''manipur'', 2100),
     (''mizoram'', 2000), (''tripura'', 1900)
   ]"

definition row_mumbai :: "(string \<times> nat) list" where
  "row_mumbai = [
     (''kerala'', 1200), (''tamil nadu'', 1100), (''karnataka'', 980),
     (''andhra pradesh'', 900), (''telangana'', 800), (''goa'', 450), (''maharashtra'', 200),
     (''gujarat'', 500), (''rajasthan'', 800), (''delhi'', 1400), (''haryana'', 1400),
     (''punjab'', 1500), (''uttarakhand'', 1600), (''himachal pradesh'', 1700),
     (''kashmir'', 1800), (''uttar pradesh'', 1300), (''madhya pradesh'', 600),
     (''chhattisgarh'', 700), (''jharkhand'', 1200), (''bihar'', 1300),
     (''west bengal'', 1300), (''odisha'', 800), (''assam'', 1800), (''meghalaya'', 1800),
     (''sikkim'', 1600), (''arunachal pradesh'', 2000), (''nagaland'', 1900),
     (''manipur'', 1900), (''mizoram'', 1800), (''tripura'', 1700)
   ]"

definition row_maharashtra :: "(string \<times> nat) list" where
  "row_maharashtra = [
     (''kerala'', 1200), (''tamil nadu'', 1000), (''karnataka'', 800),
     (''andhra pradesh'', 700), (''telangana'', 600), (''goa'', 400), (''mumbai'', 200),
     (''gujarat'', 400), (''rajasthan'', 700), (''delhi'', 1200), (''haryana'', 1200),
     (''punjab'', 1300), (''uttarakhand'', 1400), (''himachal pradesh'', 1500),
     (''kashmir'', 1600), (''uttar pradesh'', 1100), (''madhya pradesh'', 400),
     (''chhattisgarh'', 500), (''jharkhand'', 1000), (''bihar'', 1100),
     (''west bengal'', 1100), (''odisha'', 600), (''assam'', 1600), (''meghalaya'', 1600),
     (''sikkim'', 1400), (''arunachal pradesh'', 1800), (''nagaland'', 1700),
     (''manipur'', 1700), (''mizoram'', 1600), (''tripura'', 1500)
   ]"

definition row_gujarat :: "(string \<times> nat) list" where
  "row_gujarat = [
     (''kerala'', 1500), (''tamil nadu'', 1300), (''karnataka'', 1100),
     (''andhra pradesh'', 1000), (''telangana'', 900), (''goa'', 700), (''mumbai'', 500),
     (''maharashtra'', 400), (''rajasthan'', 400), (''delhi'', 900), (''haryana'', 900),
     (''punjab'', 1000), (''uttarakhand'', 1100), (''himachal pradesh'', 1200),
     (''kashmir'', 1300), (''uttar pradesh'', 800), (''madhya pradesh'', 600),
     (''chhattisgarh'', 800), (''jharkhand'', 1200), (''bihar'', 1300),
     (''west bengal'', 1400), (''odisha'', 900), (''assam'', 1800), (''meghalaya'', 1800),
     (''sikkim'', 1600), (''arunachal pradesh'', 2000), (''nagaland'', 1900),
     (''manipur'', 1900), (''mizoram'', 1800), (''tripura'', 1700)
   ]"

definition row_rajasthan :: "(string \<times> nat) list" where
  "row_rajasthan = [
     (''kerala'', 1800), (''tamil nadu'', 1800), (''karnataka'', 1600),
     (''andhra pradesh'', 1500), (''telangana'', 1300), (''goa'', 1200), (''mumbai'', 800),
     (''maharashtra'', 700), (''gujarat'', 400), (''delhi'', 600), (''haryana'', 500),
     (''punjab'', 600), (''uttarakhand'', 800), (''himachal pradesh'', 900),
     (''kashmir'', 1000), (''uttar pradesh'', 700), (''madhya pradesh'', 700),
     (''chhattisgarh'', 900), (''jharkhand'', 1200), (''bihar'', 1300),
     (''west bengal'', 1400), (''odisha'', 1100), (''assam'', 1800), (''meghalaya'', 1800),
     (''sikkim'', 1600), (''arunachal pradesh'', 2000), (''nagaland'', 1900),
     (''manipur'', 1900), (''mizoram'', 1800), (''tripura'', 1700)
   ]"

definition row_delhi :: "(string \<times> nat) list" where
  "row_delhi = [
     (''kerala'', 2200), (''tamil nadu'', 2200), (''karnataka'', 2100),
     (''andhra pradesh'', 2000), (''telangana'', 1800), (''goa'', 1800), (''mumbai'', 1400),
     (''maharashtra'', 1200), (''gujarat'', 900), (''rajasthan'', 600), (''haryana'', 50),
     (''punjab'', 300), (''uttarakhand'', 300), (''himachal pradesh'', 350),
     (''kashmir'', 800), (''uttar pradesh'', 400), (''madhya pradesh'', 800),
     (''chhattisgarh'', 1000), (''jharkhand'', 1200), (''bihar'', 1100),
     (''west bengal'', 1300), (''odisha'', 1300), (''assam'', 1700), (''meghalaya'', 1700),
     (''sikkim'', 1500), (''arunachal pradesh'', 1900), (''nagaland'', 1800),
     (''manipur'', 1800), (''mizoram'', 1700), (''tripura'', 1600)
   ]"

definition row_haryana :: "(string \<times> nat) list" where
  "row_haryana = [
     (''kerala'', 2200), (''tamil nadu'', 2200), (''karnataka'', 2100),
     (''andhra pradesh'', 2000), (''telangana'', 1800), (''goa'', 1800), (''mumbai'', 1400),
     (''maharashtra'', 1200), (''gujarat'', 900), (''rajasthan'', 500), (''delhi'', 50),
     (''punjab'', 250), (''uttarakhand'', 250), (''himachal pradesh'', 300),
     (''kashmir'', 750), (''uttar pradesh'', 350), (''madhya pradesh'', 750),
     (''chhattisgarh'', 950), (''jharkhand'', 1150), (''bihar'', 1050),
     (''west bengal'', 1250), (''odisha'', 1250), (''assam'', 1650), (''meghalaya'', 1650),
     (''sikkim'', 1450), (''arunachal pradesh'', 1850), (''nagaland'', 1750),
     (''manipur'', 1750), (''mizoram'', 1650), (''tripura'', 1550)
   ]"

definition row_punjab :: "(string \<times> nat) list" where
  "row_punjab = [
     (''kerala'', 2300), (''tamil nadu'', 2300), (''karnataka'', 2200),
     (''andhra pradesh'', 2100), (''telangana'', 1900), (''goa'', 1900), (''mumbai'', 1500),
     (''maharashtra'', 1300), (''gujarat'', 1000), (''rajasthan'', 600), (''delhi'', 300),
     (''haryana'', 250), (''uttarakhand'', 400), (''himachal pradesh'', 200),
     (''kashmir'', 500), (''uttar pradesh'', 500), (''madhya pradesh'', 900),
     (''chhattisgarh'', 1100), (''jharkhand'', 1300), (''bihar'', 1200),
     (''west bengal'', 1400), (''odisha'', 1400), (''assam'', 1800), (''meghalaya'', 1800),
     (''sikkim'', 1600), (''arunachal pradesh'', 2000), (''nagaland'', 1900),
     (''manipur'', 1900), (''mizoram'', 1800), (''tripura'', 1700)
   ]"

definition row_uttarakhand :: "(string \<times> nat) list" where
  "row_uttarakhand = [
     (''kerala'', 2000), (''tamil nadu'', 2400), (''karnataka'', 2300),
     (''andhra pradesh'', 2200), (''telangana'', 2000), (''goa'', 2000), (''mumbai'', 1600),
     (''maharashtra'', 1400), (''gujarat'', 1100), (''rajasthan'', 800), (''delhi'', 300),
     (''haryana'', 250), (''punjab'', 400), (''himachal pradesh'', 200), (''kashmir'', 600),
     (''uttar pradesh'', 200), (''madhya pradesh'', 700), (''chhattisgarh'', 900),
     (''jharkhand'', 1100), (''bihar'', 1000), (''west bengal'', 1200), (''odisha'', 1200),
     (''assam'', 1600), (''meghalaya'', 1600), (''sikkim'', 1400),
     (''arunachal pradesh'', 1800), (''nagaland'', 1700), (''manipur'', 1700),
     (''mizoram'', 1600), (''tripura'', 1500)
   ]"

definition row_himachal_pradesh :: "(string \<times> nat) list" where
  "row_himachal_pradesh = [
     (''kerala'', 2100), (''tamil nadu'', 2500), (''karnataka'', 2400),
     (''andhra pradesh'', 2300), (''telangana'', 2100), (''goa'', 2100), (''mumbai'', 1700),
     (''maharashtra'', 1500), (''gujarat'', 1200), (''rajasthan'', 900), (''delhi'', 350),
     (''haryana'', 300), (''punjab'', 200), (''uttarakhand'', 200), (''kashmir'', 400),
     (''uttar pradesh'', 400), (''madhya pradesh'', 800), (''chhattisgarh'', 1000),
     (''jharkhand'', 1200), (''bihar'', 1100), (''west bengal'', 1300), (''odisha'', 1300),
     (''assam'', 1700), (''meghalaya'', 1700), (''sikkim'', 1500),
     (''arunachal pradesh'', 1900), (''nagaland'', 1800), (''manipur'', 1800),
     (''mizoram'', 1700), (''tripura'', 1600)
   ]"

definition row_kashmir :: "(string \<times> nat) list" where
  "row_kashmir = [
     (''kerala'', 2500), (''tamil nadu'', 2700), (''karnataka'', 2600),
     (''andhra pradesh'', 2500), (''telangana'', 2300), (''goa'', 2200), (''mumbai'', 1800),
     (''maharashtra'', 1600), (''gujarat'', 1300), (''rajasthan'', 1000), (''delhi'', 800),
     (''haryana'', 750), (''punjab'', 500), (''uttarakhand'', 600),
     (''himachal pradesh'', 400), (''uttar pradesh'', 900), (''madhya pradesh'', 1200),
     (''chhattisgarh'', 1400), (''jharkhand'', 1600), (''bihar'', 1500),
     (''west bengal'', 1700), (''odisha'', 1700), (''assam'', 2100), (''meghalaya'', 2100),
     (''sikkim'', 1900), (''arunachal pradesh'', 2300), (''nagaland'', 2200),
     (''manipur'', 2200), (''mizoram'', 2100), (''tripura'', 2000)
   ]"

definition row_uttar_pradesh :: "(string \<times> nat) list" where
  "row_uttar_pradesh = [
     (''kerala'', 2000), (''tamil nadu'', 2100), (''karnataka'', 1900),
     (''andhra pradesh'', 1800), (''telangana'', 1600), (''goa'', 1700), (''mumbai'', 1300),
     (''maharashtra'', 1100), (''gujarat'', 800), (''rajasthan'', 700), (''delhi'', 400),
     (''haryana'', 350), (''punjab'', 500), (''uttarakhand'', 200),
     (''himachal pradesh'', 400), (''kashmir'', 900), (''madhya pradesh'', 500),
     (''chhattisgarh'', 700), (''jharkhand'', 900), (''bihar'', 800), (''west bengal'', 1000),
     (''odisha'', 1000), (''assam'', 1400), (''meghalaya'', 1400), (''sikkim'', 1200),
     (''arunachal pradesh'', 1600), (''nagaland'', 1500), (''manipur'', 1500),
     (''mizoram'', 1400), (''tripura'', 1300)
   ]"

definition row_madhya_pradesh :: "(string \<times> nat) list" where
  "row_madhya_pradesh = [
     (''kerala'', 1400), (''tamil nadu'', 1300), (''karnataka'', 1100),
     (''andhra pradesh'', 1000), (''telangana'', 800), (''goa'', 1000), (''mumbai'', 600),
     (''maharashtra'', 400), (''gujarat'', 600), (''rajasthan'', 700), (''delhi'', 800),
     (''haryana'', 750), (''punjab'', 900), (''uttarakhand'', 700),
     (''himachal pradesh'', 800), (''kashmir'', 1200), (''uttar pradesh'', 500),
     (''chhattisgarh'', 300), (''jharkhand'', 600), (''bihar'', 700), (''west bengal'', 800),
     (''odisha'', 700), (''assam'', 1200), (''meghalaya'', 1200), (''sikkim'', 1000),
     (''arunachal pradesh'', 1400), (''nagaland'', 1300), (''manipur'', 1300),
     (''mizoram'', 1200), (''tripura'', 1100)
   ]"

definition row_chhattisgarh :: "(string \<times> nat) list" where
  "row_chhattisgarh = [
     (''kerala'', 1300), (''tamil nadu'', 1100), (''karnataka'', 900),
     (''andhra pradesh'', 600), (''telangana'', 400), (''goa'', 900), (''mumbai'', 700),
     (''maharashtra'', 500), (''gujarat'', 800), (''rajasthan'', 900), (''delhi'', 1000),
     (''haryana'', 950), (''punjab'', 1100), (''uttarakhand'', 900),
     (''himachal pradesh'', 1000), (''kashmir'', 1400), (''uttar pradesh'', 700),
     (''madhya pradesh'', 300), (''jharkhand'', 300), (''bihar'', 500), (''west bengal'', 600),
     (''odisha'', 400), (''assam'', 1000), (''meghalaya'', 1000), (''sikkim'', 800),
     (''arunachal pradesh'', 1200), (''nagaland'', 1100), (''manipur'', 1100),
     (''mizoram'', 1000), (''tripura'', 900)
   ]"

definition row_jharkhand :: "(string \<times> nat) list" where
  "row_jharkhand = [
     (''kerala'', 1800), (''tamil nadu'', 1600), (''karnataka'', 1400),
     (''andhra pradesh'', 1200), (''telangana'', 1000), (''goa'', 1400), (''mumbai'', 1200),
     (''maharashtra'', 1000), (''gujarat'', 1200), (''rajasthan'', 1200), (''delhi'', 1200),
     (''haryana'', 1150), (''punjab'', 1300), (''uttarakhand'', 1100),
     (''himachal pradesh'', 1200), (''kashmir'', 1600), (''uttar pradesh'', 900),
     (''madhya pradesh'', 600), (''chhattisgarh'', 300), (''bihar'', 200),
     (''west bengal'', 300), (''odisha'', 500), (''assam'', 700), (''meghalaya'', 700),
     (''sikkim'', 500), (''arunachal pradesh'', 900), (''nagaland'', 800), (''manipur'', 800),
     (''mizoram'', 700), (''tripura'', 600)
   ]"

definition row_bihar :: "(string \<times> nat) list" where
  "row_bihar = [
     (''kerala'', 1900), (''tamil nadu'', 1700), (''karnataka'', 1500),
     (''andhra pradesh'', 1300), (''telangana'', 1100), (''goa'', 1500), (''mumbai'', 1300),
     (''maharashtra'', 1100), (''gujarat'', 1300), (''rajasthan'', 1300), (''delhi'', 1100),
     (''haryana'', 1050), (''punjab'', 1200), (''uttarakhand'', 1000),
     (''himachal pradesh'', 1100), (''kashmir'', 1500), (''uttar pradesh'', 800),
     (''madhya pradesh'', 700), (''chhattisgarh'', 500), (''jharkhand'', 200),
     (''west bengal'', 400), (''odisha'', 600), (''assam'', 600), (''meghalaya'', 600),
     (''sikkim'', 400), (''arunachal pradesh'', 800), (''nagaland'', 700), (''manipur'', 700),
     (''mizoram'', 600), (''tripura'', 500)
   ]"

definition row_west_bengal :: "(string \<times> nat) list" where
  "row_west_bengal = [
     (''kerala'', 1900), (''tamil nadu'', 1600), (''karnataka'', 1400),
     (''andhra pradesh'', 1200), (''telangana'', 1000), (''goa'', 1400), (''mumbai'', 1300),
     (''maharashtra'', 1100), (''gujarat'', 1400), (''rajasthan'', 1400), (''delhi'', 1300),
     (''haryana'', 1250), (''punjab'', 1400), (''uttarakhand'', 1200),
     (''himachal pradesh'', 1300), (''kashmir'', 1700), (''uttar pradesh'', 1000),
     (''madhya pradesh'', 800), (''chhattisgarh'', 600), (''jharkhand'', 300),
     (''bihar'', 400), (''odisha'', 400), (''assam'', 500), (''meghalaya'', 400),
     (''sikkim'', 200), (''arunachal pradesh'', 600), (''nagaland'', 500), (''manipur'', 500),
     (''mizoram'', 400), (''tripura'', 300)
   ]"

definition row_odisha :: "(string \<times> nat) list" where
  "row_odisha = [
     (''kerala'', 1200), (''tamil nadu'', 900), (''karnataka'', 700),
     (''andhra pradesh'', 500), (''telangana'', 300), (''goa'', 700), (''mumbai'', 800),
     (''maharashtra'', 600), (''gujarat'', 900), (''rajasthan'', 1100), (''delhi'', 1300),
     (''haryana'', 1250), (''punjab'', 1400), (''uttarakhand'', 1200),
     (''himachal pradesh'', 1300), (''kashmir'', 1700), (''uttar pradesh'', 1000),
     (''madhya pradesh'', 700), (''chhattisgarh'', 400), (''jharkhand'', 500),
     (''bihar'', 600), (''west bengal'', 400), (''assam'', 600), (''meghalaya'', 600),
     (''sikkim'', 600), (''arunachal pradesh'', 800), (''nagaland'', 700), (''manipur'', 700),
     (''mizoram'', 600), (''tripura'', 500)
   ]"

definition row_assam :: "(string \<times> nat) list" where
  "row_assam = [
     (''kerala'', 2400), (''tamil nadu'', 2200), (''karnataka'', 2000),
     (''andhra pradesh'', 1800), (''telangana'', 1600), (''goa'', 2000), (''mumbai'', 1800),
     (''maharashtra'', 1600), (''gujarat'', 1800), (''rajasthan'', 1800), (''delhi'', 1700),
     (''haryana'', 1650), (''punjab'', 1800), (''uttarakhand'', 1600),
     (''himachal pradesh'', 1700), (''kashmir'', 2100), (''uttar pradesh'', 1400),
     (''madhya pradesh'', 1200), (''chhattisgarh'', 1000), (''jharkhand'', 700),
     (''bihar'', 600), (''west bengal'', 500), (''odisha'', 600), (''meghalaya'', 100),
     (''sikkim'', 300), (''arunachal pradesh'', 300), (''nagaland'', 200), (''manipur'', 300),
     (''mizoram'', 400), (''tripura'', 400)
   ]"

definition row_meghalaya :: "(string \<times> nat) list" where
  "row_meghalaya = [
     (''kerala'', 2400), (''tamil nadu'', 2200), (''karnataka'', 2000),
     (''andhra pradesh'', 1800), (''telangana'', 1600), (''goa'', 2000), (''mumbai'', 1800),
     (''maharashtra'', 1600), (''gujarat'', 1800), (''rajasthan'', 1800), (''delhi'', 1700),
     (''haryana'', 1650), (''punjab'', 1800), (''uttarakhand'', 1600),
     (''himachal pradesh'', 1700), (''kashmir'', 2100), (''uttar pradesh'', 1400),
     (''madhya pradesh'', 1200), (''chhattisgarh'', 1000), (''jharkhand'', 700),
     (''bihar'', 600), (''west bengal'', 400), (''odisha'', 600), (''assam'', 100),
     (''sikkim'', 400), (''arunachal pradesh'', 400), (''nagaland'', 300), (''manipur'', 400),
     (''mizoram'', 300), (''tripura'', 300)
   ]"

definition row_sikkim :: "(string \<times> nat) list" where
  "row_sikkim = [
     (''kerala'', 2200), (''tamil nadu'', 2000), (''karnataka'', 1800),
     (''andhra pradesh'', 1600), (''telangana'', 1400), (''goa'', 1800), (''mumbai'', 1600),
     (''maharashtra'', 1400), (''gujarat'', 1600), (''rajasthan'', 1600), (''delhi'', 1500),
     (''haryana'', 1450), (''punjab'', 1600), (''uttarakhand'', 1400),
     (''himachal pradesh'', 1500), (''kashmir'', 1900), (''uttar pradesh'', 1200),
     (''madhya pradesh'', 1000), (''chhattisgarh'', 800), (''jharkhand'', 500),
     (''bihar'', 400), (''west bengal'', 200), (''odisha'', 600), (''assam'', 300),
     (''meghalaya'', 400), (''arunachal pradesh'', 500), (''nagaland'', 400),
     (''manipur'', 500), (''mizoram'', 600), (''tripura'', 500)
   ]"

definition row_arunachal_pradesh :: "(string \<times> nat) list" where
  "row_arunachal_pradesh = [
     (''kerala'', 2600), (''tamil nadu'', 2400), (''karnataka'', 2200),
     (''andhra pradesh'', 2000), (''telangana'', 1800), (''goa'', 2200), (''mumbai'', 2000),
     (''maharashtra'', 1800), (''gujarat'', 2000), (''rajasthan'', 2000), (''delhi'', 1900),
     (''haryana'', 1850), (''punjab'', 2000), (''uttarakhand'', 1800),
     (''himachal pradesh'', 1900), (''kashmir'', 2300), (''uttar pradesh'', 1600),
     (''madhya pradesh'', 1400), (''chhattisgarh'', 1200), (''jharkhand'', 900),
     (''bihar'', 800), (''west bengal'', 600), (''odisha'', 800), (''assam'', 300),
     (''meghalaya'', 400), (''sikkim'', 500), (''nagaland'', 400), (''manipur'', 400),
     (''mizoram'', 500), (''tripura'', 600)
   ]"

definition row_nagaland :: "(string \<times> nat) list" where
  "row_nagaland = [
     (''kerala'', 2500), (''tamil nadu'', 2300), (''karnataka'', 2100),
     (''andhra pradesh'', 1900), (''telangana'', 1700), (''goa'', 2100), (''mumbai'', 1900),
     (''maharashtra'', 1700), (''gujarat'', 1900), (''rajasthan'', 1900), (''delhi'', 1800),
     (''haryana'', 1750), (''punjab'', 1900), (''uttarakhand'', 1700),
     (''himachal pradesh'', 1800), (''kashmir'', 2200), (''uttar pradesh'', 1500),
     (''madhya pradesh'', 1300), (''chhattisgarh'', 1100), (''jharkhand'', 800),
     (''bihar'', 700), (''west bengal'', 500), (''odisha'', 700), (''assam'', 200),
     (''meghalaya'', 300), (''sikkim'', 400), (''arunachal pradesh'', 400), (''manipur'', 200),
     (''mizoram'', 300), (''tripura'', 400)
   ]"

definition row_manipur :: "(string \<times> nat) list" where
  "row_manipur = [
     (''kerala'', 2500), (''tamil nadu'', 2300), (''karnataka'', 2100),
     (''andhra pradesh'', 1900), (''telangana'', 1700), (''goa'', 2100), (''mumbai'', 1900),
     (''maharashtra'', 1700), (''gujarat'', 1900), (''rajasthan'', 1900), (''delhi'', 1800),
     (''haryana'', 1750), (''punjab'', 1900), (''uttarakhand'', 1700),
     (''himachal pradesh'', 1800), (''kashmir'', 2200), (''uttar pradesh'', 1500),
     (''madhya pradesh'', 1300), (''chhattisgarh'', 1100), (''jharkhand'', 800),
     (''bihar'', 700), (''west bengal'', 500), (''odisha'', 700), (''assam'', 300),
     (''meghalaya'', 400), (''sikkim'', 500), (''arunachal pradesh'', 400),
     (''nagaland'', 200), (''mizoram'', 200), (''tripura'', 300)
   ]"

definition row_mizoram :: "(string \<times> nat) list" where
  "row_mizoram = [
     (''kerala'', 2400), (''tamil nadu'', 2200), (''karnataka'', 2000),
     (''andhra pradesh'', 1800), (''telangana'', 1600), (''goa'', 2000), (''mumbai'', 1800),
     (''maharashtra'', 1600), (''gujarat'', 1800), (''rajasthan'', 1800), (''delhi'', 1700),
     (''haryana'', 1650), (''punjab'', 1800), (''uttarakhand'', 1600),
     (''himachal pradesh'', 1700), (''kashmir'', 2100), (''uttar pradesh'', 1400),
     (''madhya pradesh'', 1200), (''chhattisgarh'', 1000), (''jharkhand'', 700),
     (''bihar'', 600), (''west bengal'', 400), (''odisha'', 600), (''assam'', 400),
     (''meghalaya'', 300), (''sikkim'', 600), (''arunachal pradesh'', 500),
     (''nagaland'', 300), (''manipur'', 200), (''tripura'', 200)
   ]"

definition row_tripura :: "(string \<times> nat) list" where
  "row_tripura = [
     (''kerala'', 2300), (''tamil nadu'', 2100), (''karnataka'', 1900),
     (''andhra pradesh'', 1700), (''telangana'', 1500), (''goa'', 1900), (''mumbai'', 1700),
     (''maharashtra'', 1500), (''gujarat'', 1700), (''rajasthan'', 1700), (''delhi'', 1600),
     (''haryana'', 1550), (''punjab'', 1700), (''uttarakhand'', 1500),
     (''himachal pradesh'', 1600), (''kashmir'', 2000), (''uttar pradesh'', 1300),
     (''madhya pradesh'', 1100), (''chhattisgarh'', 900), (''jharkhand'', 600),
     (''bihar'', 500), (''west bengal'', 300), (''odisha'', 500), (''assam'', 400),
     (''meghalaya'', 300), (''sikkim'', 500), (''arunachal pradesh'', 600),
     (''nagaland'', 400), (''manipur'', 300), (''mizoram'', 200)
   ]"

definition row_bangalore :: "(string \<times> nat) list" where
  "row_bangalore = [
     (''kerala'', 350), (''tamil nadu'', 350), (''chennai'', 350), (''mumbai'', 980),
     (''delhi'', 2100), (''goa'', 560), (''hyderabad'', 600), (''pune'', 800),
     (''kolkata'', 1400), (''ahmedabad'', 1100), (''surat'', 1000), (''jaipur'', 1600),
     (''lucknow'', 1900), (''kanpur'', 1950), (''nagpur'', 800), (''indore'', 1100),
     (''thane'', 1000), (''bhopal'', 1100), (''visakhapatnam'', 500), (''pimpri'', 820),
     (''patna'', 1500), (''vadodara'', 1050), (''ghaziabad'', 2120), (''ludhiana'', 2200),
     (''agra'', 2000), (''nashik'', 900), (''faridabad'', 2100), (''meerut'', 2150),
     (''rajkot'', 1200), (''kalyan'', 1010), (''vasai'', 1020), (''varanasi'', 1800),
     (''srinagar'', 2600), (''aurangabad'', 800), (''dhanbad'', 1400), (''amritsar'', 2300),
     (''navi mumbai'', 990), (''allahabad'', 1850), (''ranchi'', 1400), (''howrah'', 1410),
     (''coimbatore'', 500), (''jabalpur'', 1200), (''gwalior'', 1600)
   ]"

definition row_chennai :: "(string \<times> nat) list" where
  "row_chennai = [
     (''kerala'', 650), (''tamil nadu'', 100), (''bangalore'', 350), (''mumbai'', 1100),
     (''delhi'', 2200), (''goa'', 900), (''hyderabad'', 600), (''pune'', 1000),
     (''kolkata'', 1600), (''ahmedabad'', 1300), (''surat'', 1200), (''jaipur'', 1800),
     (''lucknow'', 2100), (''kanpur'', 2150), (''nagpur'', 1000), (''indore'', 1300),
     (''thane'', 1120), (''bhopal'', 1300), (''visakhapatnam'', 450), (''pimpri'', 1020),
     (''patna'', 1700), (''vadodara'', 1250), (''ghaziabad'', 2220), (''ludhiana'', 2300),
     (''agra'', 2200), (''nashik'', 1100), (''faridabad'', 2200), (''meerut'', 2250),
     (''rajkot'', 1400), (''kalyan'', 1130), (''vasai'', 1140), (''varanasi'', 2000),
     (''srinagar'', 2700), (''aurangabad'', 1000), (''dhanbad'', 1600), (''amritsar'', 2400),
     (''navi mumbai'', 1110), (''allahabad'', 2050), (''ranchi'', 1600), (''howrah'', 1610),
     (''coimbatore'', 350), (''jabalpur'', 1400), (''gwalior'', 1800)
   ]"

definition row_hyderabad :: "(string \<times> nat) list" where
  "row_hyderabad = [
     (''kerala'', 800), (''tamil nadu'', 600), (''bangalore'', 600), (''mumbai'', 800),
     (''delhi'', 1800), (''goa'', 900), (''chennai'', 600), (''pune'', 600),
     (''kolkata'', 1000), (''ahmedabad'', 900), (''surat'', 800), (''jaipur'', 1300),
     (''lucknow'', 1600), (''kanpur'', 1650), (''nagpur'', 500), (''indore'', 800),
     (''thane'', 820), (''bhopal'', 800), (''visakhapatnam'', 200), (''pimpri'', 620),
     (''patna'', 1100), (''vadodara'', 850), (''ghaziabad'', 1820), (''ludhiana'', 1900),
     (''agra'', 1700), (''nashik'', 700), (''faridabad'', 1800), (''meerut'', 1850),
     (''rajkot'', 1000), (''kalyan'', 830), (''vasai'', 840), (''varanasi'', 1500),
     (''srinagar'', 2300), (''aurangabad'', 600), (''dhanbad'', 1000), (''amritsar'', 2000),
     (''navi mumbai'', 810), (''allahabad'', 1450), (''ranchi'', 1000), (''howrah'', 1010),
     (''coimbatore'', 800), (''jabalpur'', 900), (''gwalior'', 1200)
   ]"

definition distances :: "(string \<times> (string \<times> nat) list) list" where
  "distances = [
     (''kerala'', row_kerala), (''tamil nadu'', row_tamil_nadu),
     (''karnataka'', row_karnataka), (''andhra pradesh'', row_andhra_pradesh),
     (''telangana'', row_telangana), (''goa'', row_goa), (''mumbai'', row_mumbai),
     (''maharashtra'', row_maharashtra), (''gujarat'', row_gujarat),
     (''rajasthan'', row_rajasthan), (''delhi'', row_delhi), (''haryana'', row_haryana),
     (''punjab'', row_punjab), (''uttarakhand'', row_uttarakhand),
     (''himachal pradesh'', row_himachal_pradesh), (''kashmir'', row_kashmir),
     (''uttar pradesh'', row_uttar_pradesh), (''madhya pradesh'', row_madhya_pradesh),
     (''chhattisgarh'', row_chhattisgarh), (''jharkhand'', row_jharkhand),
     (''bihar'', row_bihar), (''west bengal'', row_west_bengal), (''odisha'', row_odisha),
     (''assam'', row_assam), (''meghalaya'', row_meghalaya), (''sikkim'', row_sikkim),
     (''arunachal pradesh'', row_arunachal_pradesh), (''nagaland'', row_nagaland),
     (''manipur'', row_manipur), (''mizoram'', row_mizoram), (''tripura'', row_tripura),
     (''bangalore'', row_bangalore), (''chennai'', row_chennai), (''hyderabad'', row_hyderabad)
   ]"

text \<open>\<open>distances.get(a, {}).get(b)\<close>\<close>

definition distance_get :: "string \<Rightarrow> string \<Rightarrow> nat option" where
  "distance_get a b = (case dict_get distances a of None \<Rightarrow> None | Some row \<Rightarrow> dict_get row b)"

text \<open>
  Python's \<open>x or y\<close> on optional integers: \<open>x\<close> when it is truthy (neither \<open>None\<close> nor
  \<open>0\<close>), otherwise \<open>y\<close>.
\<close>

definition truthy :: "nat option \<Rightarrow> bool" where
  "truthy x = (case x of None \<Rightarrow> False | Some v \<Rightarrow> v \<noteq> 0)"

definition py_or :: "nat option \<Rightarrow> nat option \<Rightarrow> nat option" where
  "py_or x y = (if truthy x then x else y)"

definition trip_distance :: "string \<Rightarrow> string \<Rightarrow> nat" where
  "trip_distance source destination =
     (let source_key = py_lower source;
          dest_key = py_lower destination;
          distance = py_or (distance_get source_key dest_key) (distance_get dest_key source_key)
      in case py_or distance (Some 300) of Some v \<Rightarrow> v | None \<Rightarrow> 300)"

definition duration_for :: "string \<Rightarrow> nat \<Rightarrow> nat" where
  "duration_for travel_mode distance =
     (if travel_mode = ''Self'' then
        (if distance \<le> 300 then 2
         else if distance \<le> 800 then 3
         else if distance \<le> 1500 then 4
         else 5)
      else
        (if distance \<le> 500 then 2
         else if distance \<le> 1200 then 3
         else 4))"

definition calculate_minimum_duration :: "string \<Rightarrow> string \<Rightarrow> string \<Rightarrow> nat" where
  "calculate_minimum_duration source destination travel_mode =
     duration_for travel_mode (trip_distance source destination)"

record duration_option =
  label :: string
  val :: string
  days :: nat

definition all_durations :: "duration_option list" where
  "all_durations =
     [\<lparr>label = ''1-2 days'', val = ''2 days'', days = 2\<rparr>,
      \<lparr>label = ''3-4 days'', val = ''3 days'', days = 3\<rparr>,
      \<lparr>label = ''5-7 days'', val = ''7 days'', days = 7\<rparr>,
      \<lparr>label = ''1 week+'', val = ''10 days'', days = 10\<rparr>]"

definition get_feasible_durations :: "string \<Rightarrow> string \<Rightarrow> string \<Rightarrow> duration_option list" where
  "get_feasible_durations source destination travel_mode =
     (let min_duration = calculate_minimum_duration source destination travel_mode
      in filter (\<lambda>duration. days duration \<ge> min_duration) all_durations)"

text \<open>
  The lookup as the specification words it: the pair source, destination first, then the
  pair destination, source, and 300 km when the table has neither.
\<close>

definition spec_distance :: "string \<Rightarrow> string \<Rightarrow> nat" where
  "spec_distance source destination =
     (case distance_get (py_lower source) (py_lower destination) of
        Some v \<Rightarrow> v
      | None \<Rightarrow>
         (case distance_get (py_lower destination) (py_lower source) of
            Some v \<Rightarrow> v
          | None \<Rightarrow> 300))"


text \<open>
  What the proofs check of one entry \<open>(d, v)\<close> of the row of \<open>a\<close>: the distance is not
  zero, and the row of \<open>d\<close>, when it lists \<open>a\<close>, gives the same distance.
\<close>

fun entry_ok :: "string \<Rightarrow> string \<times> nat \<Rightarrow> bool" where
  "entry_ok a (d, v) =
     (v \<noteq> 0 \<and> (case distance_get d a of None \<Rightarrow> True | Some w \<Rightarrow> w = v))"

section \<open>The saved-trips store (server/main.py)\<close>

text \<open>
  \<open>saved_trips\<close> is a module-level dict from trip id to trip record.  A Python dict keeps
  its keys unique and in insertion order; it is modelled as the list of its entries, in
  that order.  \<open>d[k] = v\<close> replaces the value of an existing key in place and appends a new
  key; \<open>del d[k]\<close> removes the entry of the key; \<open>list(d.values())\<close> lists the values.
\<close>

fun dict_set :: "('k \<times> 'v) list \<Rightarrow> 'k \<Rightarrow> 'v \<Rightarrow> ('k \<times> 'v) list" where
  "dict_set [] k v = [(k, v)]"
| "dict_set ((a, b) # ps) k v = (if a = k then (k, v) # ps else (a, b) # dict_set ps k v)"

fun dict_del :: "('k \<times> 'v) list \<Rightarrow> 'k \<Rightarrow> ('k \<times> 'v) list" where
  "dict_del [] k = []"
| "dict_del ((a, b) # ps) k = (if a = k then ps else (a, b) # dict_del ps k)"

definition dict_contains :: "('k \<times> 'v) list \<Rightarrow> 'k \<Rightarrow> bool" where
  "dict_contains d k = (dict_get d k \<noteq> None)"

definition dict_values :: "('k \<times> 'v) list \<Rightarrow> 'v list" where
  "dict_values d = map snd d"

datatype http_error = HTTPException nat string

record 'a save_trip_request =
  rq_id :: "string option"
  rq_name :: string
  rq_trip_data :: 'a

record 'a saved_trip =
  st_id :: string
  st_name :: string
  st_trip_data :: 'a
  st_created_at :: string
  st_updated_at :: string

record save_trip_response =
  sr_id :: string
  sr_message :: string

type_synonym 'a trip_store = "(string \<times> 'a saved_trip) list"

text \<open>
  \<open>request.id or f"trip_{datetime.now().timestamp()}"\<close>: the id of the request when it is a
  non-empty string, otherwise \<open>trip_\<close> followed by the timestamp.  The readings of the clock
  are inputs of the model, already rendered: \<open>ts\<close> is the text of
  \<open>datetime.now().timestamp()\<close>, \<open>created\<close> and \<open>updated\<close> are the two
  \<open>datetime.now().isoformat()\<close> texts.
\<close>

definition save_trip_id :: "string \<Rightarrow> 'a save_trip_request \<Rightarrow> string" where
  "save_trip_id ts request =
     (case rq_id request of
        Some i \<Rightarrow> if i \<noteq> [] then i else ''trip_'' @ ts
      | None \<Rightarrow> ''trip_'' @ ts)"

definition save_trip ::
  "string \<Rightarrow> string \<Rightarrow> string \<Rightarrow> 'a save_trip_request \<Rightarrow> 'a trip_store
     \<Rightarrow> (http_error + save_trip_response) \<times> 'a trip_store" where
  "save_trip ts created updated request saved_trips =
     (let trip_id = save_trip_id ts request;
          saved_trips' = dict_set saved_trips trip_id
             \<lparr>st_id = trip_id, st_name = rq_name request, st_trip_data = rq_trip_data request,
              st_created_at = created, st_updated_at = updated\<rparr>
      in (Inr \<lparr>sr_id = trip_id, sr_message = ''Trip saved successfully''\<rparr>, saved_trips'))"

definition get_saved_trips :: "'a trip_store \<Rightarrow> (http_error + 'a saved_trip list) \<times> 'a trip_store" where
  "get_saved_trips saved_trips = (Inr (dict_values saved_trips), saved_trips)"

definition delete_trip ::
  "string \<Rightarrow> 'a trip_store \<Rightarrow> (http_error + string) \<times> 'a trip_store" where
  "delete_trip trip_id saved_trips =
     (if \<not> dict_contains saved_trips trip_id
      then (Inl (HTTPException 404 ''Trip not found''), saved_trips)
      else (Inr ''Trip deleted successfully'', dict_del saved_trips trip_id))"

section \<open>Budget validation (travel_planning_agent.py)\<close>

subsection \<open>Character classes, digit strings\<close>

definition is_digit :: "char \<Rightarrow> bool" where
  "is_digit c = (48 \<le> (of_char c :: nat) \<and> (of_char c :: nat) \<le> 57)"

definition is_space :: "char \<Rightarrow> bool" where
  "is_space c = ((of_char c :: nat) \<in> {9, 10, 11, 12, 13, 28, 29, 30, 31, 32, 133, 160})"

definition digit_value :: "char \<Rightarrow> int" where
  "digit_value c = int (of_char c) - 48"

text \<open>The number a string of digits writes; 0 for the empty string.\<close>

definition int_of_digits :: "string \<Rightarrow> int" where
  "int_of_digits s = foldl (\<lambda>n c. 10 * n + digit_value c) 0 s"

text \<open>
  \<open>re.findall(r'\d+', s)\<close>: the maximal runs of digits, from left to right.  The second
  argument is the run being read.
\<close>

fun findall_digits_from :: "string \<Rightarrow> string \<Rightarrow> string list" where
  "findall_digits_from run [] = (if run = [] then [] else [run])"
| "findall_digits_from run (c # cs) =
     (if is_digit c then findall_digits_from (run @ [c]) cs
      else if run = [] then findall_digits_from [] cs
      else run # findall_digits_from [] cs)"

definition findall_digits :: "string \<Rightarrow> string list" where
  "findall_digits s = findall_digits_from [] s"

subsection \<open>Floats\<close>

text \<open>
  A Python float is a binary64 number: a finite value, given here by the rational it
  denotes, an infinity or a NaN.  The sign of a zero is not kept; nothing below reads it.
  \<open>f64_round\<close> rounds a rational to the nearest double, ties to the even significand:
  \<open>ulp_exponent x\<close> is the exponent of the last place of the doubles around \<open>x\<close>, from
  \<open>- 1074\<close> for the subnormal numbers to \<open>971\<close> below \<open>2 ^ 1024\<close>, and a result of
  \<open>2 ^ 1024\<close> or more is an infinity.
\<close>

datatype pyfloat = Finite rat | PosInf | NegInf | NaN

definition round_half_even :: "rat \<Rightarrow> int" where
  "round_half_even q =
     (let f = \<lfloor>q\<rfloor>; r = q - of_int f
      in if r < 1 / 2 then f else if 1 / 2 < r then f + 1 else if even f then f else f + 1)"

definition ulp_exponent :: "rat \<Rightarrow> int option" where
  "ulp_exponent x = find (\<lambda>e. x < 2 powi (e + 53)) [- 1074 .. 971]"

definition f64_round_abs :: "rat \<Rightarrow> pyfloat" where
  "f64_round_abs x =
     (case ulp_exponent x of
        None \<Rightarrow> PosInf
      | Some e \<Rightarrow>
          (let m = round_half_even (x / 2 powi e)
           in if e = 971 \<and> m = 2 ^ 53 then PosInf else Finite (of_int m * 2 powi e)))"

fun fneg :: "pyfloat \<Rightarrow> pyfloat" where
  "fneg (Finite r) = Finite (- r)"
| "fneg PosInf = NegInf"
| "fneg NegInf = PosInf"
| "fneg NaN = NaN"

definition f64_round :: "rat \<Rightarrow> pyfloat" where
  "f64_round x = (if x < 0 then fneg (f64_round_abs (- x)) else f64_round_abs x)"

fun fsign :: "pyfloat \<Rightarrow> int" where
  "fsign (Finite r) = (if r < 0 then - 1 else if r = 0 then 0 else 1)"
| "fsign PosInf = 1"
| "fsign NegInf = - 1"
| "fsign NaN = 0"

fun fmul :: "pyfloat \<Rightarrow> pyfloat \<Rightarrow> pyfloat" where
  "fmul (Finite a) (Finite b) = f64_round (a * b)"
| "fmul NaN y = NaN"
| "fmul x NaN = NaN"
| "fmul x y =
     (let s = fsign x * fsign y
      in if s = 0 then NaN else if 0 < s then PosInf else NegInf)"

fun fadd :: "pyfloat \<Rightarrow> pyfloat \<Rightarrow> pyfloat" where
  "fadd (Finite a) (Finite b) = f64_round (a + b)"
| "fadd NaN y = NaN"
| "fadd x NaN = NaN"
| "fadd PosInf NegInf = NaN"
| "fadd NegInf PosInf = NaN"
| "fadd PosInf y = PosInf"
| "fadd NegInf y = NegInf"
| "fadd x PosInf = PosInf"
| "fadd x NegInf = NegInf"

datatype exn = OverflowError string | ValueError string

fun exn_message :: "exn \<Rightarrow> string" where
  "exn_message (OverflowError m) = m"
| "exn_message (ValueError m) = m"

definition float_of_int :: "int \<Rightarrow> exn + pyfloat" where
  "float_of_int n =
     (case f64_round (of_int n) of
        Finite r \<Rightarrow> Inr (Finite r)
      | _ \<Rightarrow> Inl (OverflowError ''int too large to convert to float''))"

fun int_of_float :: "pyfloat \<Rightarrow> exn + int" where
  "int_of_float (Finite r) = Inr (if 0 \<le> r then \<lfloor>r\<rfloor> else \<lceil>r\<rceil>)"
| "int_of_float PosInf = Inl (OverflowError ''cannot convert float infinity to integer'')"
| "int_of_float NegInf = Inl (OverflowError ''cannot convert float infinity to integer'')"
| "int_of_float NaN = Inl (ValueError ''cannot convert float NaN to integer'')"



subsection \<open>Formatting integers\<close>

definition digit_char :: "int \<Rightarrow> char" where
  "digit_char n = char_of (48 + n)"

function decimal :: "int \<Rightarrow> string" where
  "decimal n = (if n < 10 then [digit_char n] else decimal (n div 10) @ [digit_char (n mod 10)])"
  by pat_completeness auto
termination
  by (relation "measure nat") auto

text \<open>Groups of three digits, on the digits from the least significant one.\<close>

fun group_thousands :: "string \<Rightarrow> string" where
  "group_thousands (a # b # c # d # rest) = a # b # c # CHR '','' # group_thousands (d # rest)"
| "group_thousands ds = ds"

text \<open>The format specification \<open>{n:,}\<close> for an integer.\<close>

definition format_grouped :: "int \<Rightarrow> string" where
  "format_grouped n =
     (if n < 0 then CHR ''-'' # rev (group_thousands (rev (decimal (- n))))
      else rev (group_thousands (rev (decimal n))))"

subsection \<open>int of a string of digits\<close>

text \<open>
  \<open>int(s)\<close> for a string of digits.  CPython refuses a string of more than 4300 digits,
  leading zeros counted, with a \<open>ValueError\<close>; 4300 is the default of
  \<open>sys.int_max_str_digits\<close>, which the repository does not change.
\<close>

definition int_max_str_digits :: nat where
  "int_max_str_digits = 4300"

definition digit_limit_message :: "nat \<Rightarrow> string" where
  "digit_limit_message n =
     ''Exceeds the limit (4300 digits) for integer string conversion: value has ''
     @ decimal (int n) @ '' digits; use sys.set_int_max_str_digits() to increase the limit''"

definition py_int :: "string \<Rightarrow> exn + int" where
  "py_int s =
     (if length s > int_max_str_digits then Inl (ValueError (digit_limit_message (length s)))
      else Inr (int_of_digits s))"

subsection \<open>validate_budget\<close>

text \<open>
  The budget is the one field whose pattern names a character beyond code point 255, the
  rupee sign U+20B9.  Its text is a list of characters that are either a code point below
  256 or the rupee sign; \<open>ustr\<close> reads a string of the narrow alphabet as such a text.
\<close>

datatype uchar = Narrow char | Rupee_Sign

type_synonym ustring = "uchar list"

definition ustr :: "string \<Rightarrow> ustring" where
  "ustr s = map Narrow s"

text \<open>
  The travel input is a dict from field names to strings; a field is \<open>None\<close> when its key
  is absent.  The code reads \<open>budget\<close> and \<open>duration\<close> through \<open>str()\<close>, so a number given
  for them stands here as its decimal text.
\<close>

record travel_input =
  ti_source :: "string option"
  ti_destination :: "string option"
  ti_travel_mode :: "string option"
  ti_budget :: "ustring option"
  ti_theme :: "string option"
  ti_duration :: "string option"
  ti_vehicle_type :: "string option"

text \<open>\<open>d.get(key, default)\<close> for a field of the input.\<close>

definition get_or :: "'a option \<Rightarrow> 'a \<Rightarrow> 'a" where
  "get_or field dflt = (case field of None \<Rightarrow> dflt | Some v \<Rightarrow> v)"

text \<open>
  The class of \<open>re.sub(r'[\<dots>Rs,\s]', '', budget_str)\<close>, whose first character in the source
  is the rupee sign: the rupee sign, \<open>R\<close>, \<open>s\<close>, the comma and whitespace.
\<close>

fun currency_class :: "uchar \<Rightarrow> bool" where
  "currency_class Rupee_Sign = True"
| "currency_class (Narrow c) = (c = CHR ''R'' \<or> c = CHR ''s'' \<or> c = CHR '','' \<or> is_space c)"

text \<open>
  The substitution deletes the characters of the class.  What is left has no rupee sign,
  so it is a string of the narrow alphabet.
\<close>

fun re_sub_currency :: "ustring \<Rightarrow> string" where
  "re_sub_currency [] = []"
| "re_sub_currency (Rupee_Sign # us) = re_sub_currency us"
| "re_sub_currency (Narrow c # us) =
     (if currency_class (Narrow c) then re_sub_currency us else c # re_sub_currency us)"

text \<open>A float literal denotes the double nearest to its decimal value.\<close>

definition lit_0_4 :: pyfloat where "lit_0_4 = f64_round (4 / 10)"
definition lit_0_3 :: pyfloat where "lit_0_3 = f64_round (3 / 10)"
definition lit_1_0 :: pyfloat where "lit_1_0 = f64_round 1"
definition lit_1_2 :: pyfloat where "lit_1_2 = f64_round (12 / 10)"
definition lit_1_5 :: pyfloat where "lit_1_5 = f64_round (15 / 10)"
definition lit_2_0 :: pyfloat where "lit_2_0 = f64_round 2"
definition lit_3_0 :: pyfloat where "lit_3_0 = f64_round 3"

definition theme_multipliers :: "(string \<times> pyfloat) list" where
  "theme_multipliers =
     [(''devotional'', lit_1_0), (''cultural'', lit_1_2), (''adventurous'', lit_1_5),
      (''nightlife'', lit_2_0), (''luxury'', lit_3_0)]"

text \<open>
  \<open>n * x\<close> and \<open>n + x\<close> for an int \<open>n\<close> and a float \<open>x\<close>: the int is converted first, which
  raises for an int beyond the range of the doubles.
\<close>

definition int_times_float :: "int \<Rightarrow> pyfloat \<Rightarrow> exn + pyfloat" where
  "int_times_float n x = (case float_of_int n of Inl e \<Rightarrow> Inl e | Inr y \<Rightarrow> Inr (fmul y x))"

definition int_plus_float :: "int \<Rightarrow> pyfloat \<Rightarrow> exn + pyfloat" where
  "int_plus_float n x = (case float_of_int n of Inl e \<Rightarrow> Inl e | Inr y \<Rightarrow> Inr (fadd y x))"

text \<open>
  The cost lines of \<open>validate_budget\<close>, in the order of the source:
  \<open>accommodation_cost = duration * base_daily_cost * 0.4 * theme_multiplier\<close>,
  \<open>food_cost = duration * base_daily_cost * 0.3\<close>,
  \<open>activities_cost = duration * base_daily_cost * 0.3 * theme_multiplier\<close>,
  \<open>minimum_budget = int(transport_cost + accommodation_cost + food_cost + activities_cost)\<close>.
  Python multiplies and adds from the left, so \<open>duration * base_daily_cost\<close> is a product
  of ints.
\<close>

definition minimum_budget_of :: "int \<Rightarrow> int \<Rightarrow> pyfloat \<Rightarrow> exn + int" where
  "minimum_budget_of duration transport_cost theme_multiplier =
     (let base_daily_cost = 2500 in
      case int_times_float (duration * base_daily_cost) lit_0_4 of Inl e \<Rightarrow> Inl e | Inr a \<Rightarrow>
      let accommodation_cost = fmul a theme_multiplier in
      case int_times_float (duration * base_daily_cost) lit_0_3 of Inl e \<Rightarrow> Inl e | Inr food_cost \<Rightarrow>
      case int_times_float (duration * base_daily_cost) lit_0_3 of Inl e \<Rightarrow> Inl e | Inr b \<Rightarrow>
      let activities_cost = fmul b theme_multiplier in
      case int_plus_float transport_cost accommodation_cost of Inl e \<Rightarrow> Inl e | Inr s \<Rightarrow>
      int_of_float (fadd (fadd s food_cost) activities_cost))"

text \<open>The three dicts \<open>validate_budget\<close> returns, by their \<open>status\<close>.\<close>

datatype budget_validation =
    Sufficient (provided_budget: int) (minimum_required: int) (buffer_amount: int) (message: string)
  | Insufficient (provided_budget: int) (minimum_required: int) (shortfall: int)
      (alert_message: string)
  | Budget_Error (message: string) (minimum_required: int)

fun status :: "budget_validation \<Rightarrow> string" where
  "status (Sufficient _ _ _ _) = ''sufficient''"
| "status (Insufficient _ _ _ _) = ''insufficient''"
| "status (Budget_Error _ _) = ''error''"

text \<open>The first run of digits of a string, as the specification words the duration.\<close>

definition first_digit_run :: "string \<Rightarrow> string" where
  "first_digit_run s = takeWhile is_digit (dropWhile (\<lambda>c. \<not> is_digit c) s)"

text \<open>
  \<open>budget = int(''.join(budget_numbers)) if budget_numbers else 0\<close> and
  \<open>duration = int(duration_numbers[0]) if duration_numbers else 1\<close>; \<open>Inl\<close> is the exception
  \<open>int\<close> raises.
\<close>

definition parse_budget :: "ustring \<Rightarrow> exn + int" where
  "parse_budget budget_str =
     (let cleaned_budget = re_sub_currency budget_str;
          budget_numbers = findall_digits cleaned_budget
      in if budget_numbers \<noteq> [] then py_int (concat budget_numbers) else Inr 0)"

definition parse_duration_days :: "string \<Rightarrow> exn + int" where
  "parse_duration_days duration_str =
     (case findall_digits duration_str of [] \<Rightarrow> Inr 1 | n # _ \<Rightarrow> py_int n)"

text \<open>
  The same two numbers as the specification words them: the digits of the budget field,
  all of them in their order, and the first run of digits of the duration field, 1 when
  it has none.
\<close>

fun budget_digits :: "ustring \<Rightarrow> string" where
  "budget_digits [] = []"
| "budget_digits (Rupee_Sign # us) = budget_digits us"
| "budget_digits (Narrow c # us) = (if is_digit c then c # budget_digits us else budget_digits us)"

definition duration_days :: "string \<Rightarrow> int" where
  "duration_days duration_str =
     (if first_digit_run duration_str = [] then 1
      else int_of_digits (first_digit_run duration_str))"

text \<open>The two f-strings of the result, with their non-ASCII characters by code point.\<close>

definition sufficient_message :: "int \<Rightarrow> string" where
  "sufficient_message buffer =
     ''Budget is sufficient! You have '' @ [CHR 0xB9] @ format_grouped buffer
     @ '' buffer amount.''"

definition insufficient_message :: "int \<Rightarrow> int \<Rightarrow> string" where
  "insufficient_message minimum_budget budget =
     [CHR 0xA0, CHR 0x0F] @ '' Budget Alert: Minimum required budget is '' @ [CHR 0xB9]
     @ format_grouped minimum_budget @ ''. You provided '' @ [CHR 0xB9]
     @ format_grouped budget @ ''. Please increase budget by '' @ [CHR 0xB9]
     @ format_grouped (minimum_budget - budget) @ ''.''"

text \<open>The dict the handler \<open>except Exception as e\<close> of \<open>validate_budget\<close> returns.\<close>

definition budget_error :: "exn \<Rightarrow> budget_validation" where
  "budget_error e = Budget_Error (''Budget validation failed: '' @ exn_message e) 10000"

text \<open>
  \<open>validate_budget\<close>, in the order of the source: the budget is parsed first, then the
  duration, then the costs are computed; whatever raises first ends in the handler.
\<close>

definition validate_budget :: "travel_input \<Rightarrow> budget_validation" where
  "validate_budget travel_input =
     (case parse_budget (get_or (ti_budget travel_input) (ustr ''0'')) of
        Inl e \<Rightarrow> budget_error e
      | Inr budget \<Rightarrow>
     (let travel_mode = get_or (ti_travel_mode travel_input) ''Self'';
          theme = py_lower (get_or (ti_theme travel_input) ''cultural'')
      in case parse_duration_days (get_or (ti_duration travel_input) ''1'') of
        Inl e \<Rightarrow> budget_error e
      | Inr duration \<Rightarrow>
     (let theme_multiplier = get_or (dict_get theme_multipliers theme) lit_1_2;
          transport_cost =
            (if py_lower travel_mode = ''self'' then duration * 1500 else duration * 3500)
      in case minimum_budget_of duration transport_cost theme_multiplier of
           Inl e \<Rightarrow> budget_error e
         | Inr minimum_budget \<Rightarrow>
             if budget \<ge> minimum_budget then
               Sufficient budget minimum_budget (budget - minimum_budget)
                 (sufficient_message (budget - minimum_budget))
             else
               Insufficient budget minimum_budget (minimum_budget - budget)
                 (insufficient_message minimum_budget budget))))"

text \<open>
  The minimum as the specification states it, in exact arithmetic: the daily transport
  cost by travel mode, 40 and 30 per cent of the base daily cost of 2500 weighted by the
  multiplier of the theme, 30 per cent unweighted, all times the duration, truncated.
\<close>

definition spec_theme_multiplier :: "string \<Rightarrow> rat" where
  "spec_theme_multiplier theme =
     (if theme = ''devotional'' then 1
      else if theme = ''cultural'' then 12 / 10
      else if theme = ''adventurous'' then 15 / 10
      else if theme = ''nightlife'' then 2
      else if theme = ''luxury'' then 3
      else 12 / 10)"

definition spec_minimum_budget :: "int \<Rightarrow> string \<Rightarrow> string \<Rightarrow> int" where
  "spec_minimum_budget duration travel_mode theme =
     (let m = spec_theme_multiplier (py_lower theme);
          d = (of_int duration :: rat)
      in \<lfloor>d * (if py_lower travel_mode = ''self'' then 1500 else 3500)
          + d * 2500 * (4 / 10) * m + d * 2500 * (3 / 10) + d * 2500 * (3 / 10) * m\<rfloor>)"

text \<open>
  The cost of one day apart from transport, by theme: accommodation, food and activities
  at the multiplier of the theme.  Used in the proofs.
\<close>

definition daily_theme_cost :: "string \<Rightarrow> int" where
  "daily_theme_cost theme =
     (if theme = ''devotional'' then 2500
      else if theme = ''cultural'' then 2850
      else if theme = ''adventurous'' then 3375
      else if theme = ''nightlife'' then 4250
      else if theme = ''luxury'' then 6000
      else 2850)"

section \<open>The distance table is symmetric and has no zero entry\<close>

lemma dict_get_key_cong: "k = k' \<Longrightarrow> dict_get xs k = dict_get xs k'"
  by simp

lemma dict_get_unfold: "r = xs \<Longrightarrow> dict_get r = dict_get xs"
  by simp

lemma dict_get_SomeD: "dict_get xs k = Some v \<Longrightarrow> (k, v) \<in> set xs"
  by (induction xs) (auto split: if_splits)

lemmas str_eq = list.inject char.inject list.distinct simp_thms if_True if_False

lemmas row_lookups =
  row_kerala_def[THEN dict_get_unfold]
  row_tamil_nadu_def[THEN dict_get_unfold]
  row_karnataka_def[THEN dict_get_unfold]
  row_andhra_pradesh_def[THEN dict_get_unfold]
  row_telangana_def[THEN dict_get_unfold]
  row_goa_def[THEN dict_get_unfold]
  row_mumbai_def[THEN dict_get_unfold]
  row_maharashtra_def[THEN dict_get_unfold]
  row_gujarat_def[THEN dict_get_unfold]
  row_rajasthan_def[THEN dict_get_unfold]
  row_delhi_def[THEN dict_get_unfold]
  row_haryana_def[THEN dict_get_unfold]
  row_punjab_def[THEN dict_get_unfold]
  row_uttarakhand_def[THEN dict_get_unfold]
  row_himachal_pradesh_def[THEN dict_get_unfold]
  row_kashmir_def[THEN dict_get_unfold]
  row_uttar_pradesh_def[THEN dict_get_unfold]
  row_madhya_pradesh_def[THEN dict_get_unfold]
  row_chhattisgarh_def[THEN dict_get_unfold]
  row_jharkhand_def[THEN dict_get_unfold]
  row_bihar_def[THEN dict_get_unfold]
  row_west_bengal_def[THEN dict_get_unfold]
  row_odisha_def[THEN dict_get_unfold]
  row_assam_def[THEN dict_get_unfold]
  row_meghalaya_def[THEN dict_get_unfold]
  row_sikkim_def[THEN dict_get_unfold]
  row_arunachal_pradesh_def[THEN dict_get_unfold]
  row_nagaland_def[THEN dict_get_unfold]
  row_manipur_def[THEN dict_get_unfold]
  row_mizoram_def[THEN dict_get_unfold]
  row_tripura_def[THEN dict_get_unfold]
  row_bangalore_def[THEN dict_get_unfold]
  row_chennai_def[THEN dict_get_unfold]
  row_hyderabad_def[THEN dict_get_unfold]

text \<open>The rows of the table, and the keys of the rows that have no row of their own.\<close>

lemma distances_at_kerala: "dict_get distances ''kerala'' = Some row_kerala"
  by (simp only: distances_def[THEN dict_get_unfold] dict_get.simps str_eq
        cong: dict_get_key_cong if_weak_cong)

lemma distances_at_tamil_nadu: "dict_get distances ''tamil nadu'' = Some row_tamil_nadu"
  by (simp only: distances_def[THEN dict_get_unfold] dict_get.simps str_eq
        cong: dict_get_key_cong if_weak_cong)

lemma distances_at_karnataka: "dict_get distances ''karnataka'' = Some row_karnataka"
  by (simp only: distances_def[THEN dict_get_unfold] dict_get.simps str_eq
        cong: dict_get_key_cong if_weak_cong)

lemma distances_at_andhra_pradesh: "dict_get distances ''andhra pradesh'' = Some row_andhra_pradesh"
  by (simp only: distances_def[THEN dict_get_unfold] dict_get.simps str_eq
        cong: dict_get_key_cong if_weak_cong)

lemma distances_at_telangana: "dict_get distances ''telangana'' = Some row_telangana"
  by (simp only: distances_def[THEN dict_get_unfold] dict_get.simps str_eq
        cong: dict_get_key_cong if_weak_cong)

lemma distances_at_goa: "dict_get distances ''goa'' = Some row_goa"
  by (simp only: distances_def[THEN dict_get_unfold] dict_get.simps str_eq
        cong: dict_get_key_cong if_weak_cong)

lemma distances_at_mumbai: "dict_get distances ''mumbai'' = Some row_mumbai"
  by (simp only: distances_def[THEN dict_get_unfold] dict_get.simps str_eq
        cong: dict_get_key_cong if_weak_cong)

lemma distances_at_maharashtra: "dict_get distances ''maharashtra'' = Some row_maharashtra"
  by (simp only: distances_def[THEN dict_get_unfold] dict_get.simps str_eq
        cong: dict_get_key_cong if_weak_cong)

lemma distances_at_gujarat: "dict_get distances ''gujarat'' = Some row_gujarat"
  by (simp only: distances_def[THEN dict_get_unfold] dict_get.simps str_eq
        cong: dict_get_key_cong if_weak_cong)

lemma distances_at_rajasthan: "dict_get distances ''rajasthan'' = Some row_rajasthan"
  by (simp only: distances_def[THEN dict_get_unfold] dict_get.simps str_eq
        cong: dict_get_key_cong if_weak_cong)

lemma distances_at_delhi: "dict_get distances ''delhi'' = Some row_delhi"
  by (simp only: distances_def[THEN dict_get_unfold] dict_get.simps str_eq
        cong: dict_get_key_cong if_weak_cong)

lemma distances_at_haryana: "dict_get distances ''haryana'' = Some row_haryana"
  by (simp only: distances_def[THEN dict_get_unfold] dict_get.simps str_eq
        cong: dict_get_key_cong if_weak_cong)

lemma distances_at_punjab: "dict_get distances ''punjab'' = Some row_punjab"
  by (simp only: distances_def[THEN dict_get_unfold] dict_get.simps str_eq
        cong: dict_get_key_cong if_weak_cong)

lemma distances_at_uttarakhand: "dict_get distances ''uttarakhand'' = Some row_uttarakhand"
  by (simp only: distances_def[THEN dict_get_unfold] dict_get.simps str_eq
        cong: dict_get_key_cong if_weak_cong)

lemma distances_at_himachal_pradesh: "dict_get distances ''himachal pradesh'' = Some row_himachal_pradesh"
  by (simp only: distances_def[THEN dict_get_unfold] dict_get.simps str_eq
        cong: dict_get_key_cong if_weak_cong)

lemma distances_at_kashmir: "dict_get distances ''kashmir'' = Some row_kashmir"
  by (simp only: distances_def[THEN dict_get_unfold] dict_get.simps str_eq
        cong: dict_get_key_cong if_weak_cong)

lemma distances_at_uttar_pradesh: "dict_get distances ''uttar pradesh'' = Some row_uttar_pradesh"
  by (simp only: distances_def[THEN dict_get_unfold] dict_get.simps str_eq
        cong: dict_get_key_cong if_weak_cong)

lemma distances_at_madhya_pradesh: "dict_get distances ''madhya pradesh'' = Some row_madhya_pradesh"
  by (simp only: distances_def[THEN dict_get_unfold] dict_get.simps str_eq
        cong: dict_get_key_cong if_weak_cong)

lemma distances_at_chhattisgarh: "dict_get distances ''chhattisgarh'' = Some row_chhattisgarh"
  by (simp only: distances_def[THEN dict_get_unfold] dict_get.simps str_eq
        cong: dict_get_key_cong if_weak_cong)

lemma distances_at_jharkhand: "dict_get distances ''jharkhand'' = Some row_jharkhand"
  by (simp only: distances_def[THEN dict_get_unfold] dict_get.simps str_eq
        cong: dict_get_key_cong if_weak_cong)

lemma distances_at_bihar: "dict_get distances ''bihar'' = Some row_bihar"
  by (simp only: distances_def[THEN dict_get_unfold] dict_get.simps str_eq
        cong: dict_get_key_cong if_weak_cong)

lemma distances_at_west_bengal: "dict_get distances ''west bengal'' = Some row_west_bengal"
  by (simp only: distances_def[THEN dict_get_unfold] dict_get.simps str_eq
        cong: dict_get_key_cong if_weak_cong)

lemma distances_at_odisha: "dict_get distances ''odisha'' = Some row_odisha"
  by (simp only: distances_def[THEN dict_get_unfold] dict_get.simps str_eq
        cong: dict_get_key_cong if_weak_cong)

lemma distances_at_assam: "dict_get distances ''assam'' = Some row_assam"
  by (simp only: distances_def[THEN dict_get_unfold] dict_get.simps str_eq
        cong: dict_get_key_cong if_weak_cong)

lemma distances_at_meghalaya: "dict_get distances ''meghalaya'' = Some row_meghalaya"
  by (simp only: distances_def[THEN dict_get_unfold] dict_get.simps str_eq
        cong: dict_get_key_cong if_weak_cong)

lemma distances_at_sikkim: "dict_get distances ''sikkim'' = Some row_sikkim"
  by (simp only: distances_def[THEN dict_get_unfold] dict_get.simps str_eq
        cong: dict_get_key_cong if_weak_cong)

lemma distances_at_arunachal_pradesh: "dict_get distances ''arunachal pradesh'' = Some row_arunachal_pradesh"
  by (simp only: distances_def[THEN dict_get_unfold] dict_get.simps str_eq
        cong: dict_get_key_cong if_weak_cong)

lemma distances_at_nagaland: "dict_get distances ''nagaland'' = Some row_nagaland"
  by (simp only: distances_def[THEN dict_get_unfold] dict_get.simps str_eq
        cong: dict_get_key_cong if_weak_cong)

lemma distances_at_manipur: "dict_get distances ''manipur'' = Some row_manipur"
  by (simp only: distances_def[THEN dict_get_unfold] dict_get.simps str_eq
        cong: dict_get_key_cong if_weak_cong)

lemma distances_at_mizoram: "dict_get distances ''mizoram'' = Some row_mizoram"
  by (simp only: distances_def[THEN dict_get_unfold] dict_get.simps str_eq
        cong: dict_get_key_cong if_weak_cong)

lemma distances_at_tripura: "dict_get distances ''tripura'' = Some row_tripura"
  by (simp only: distances_def[THEN dict_get_unfold] dict_get.simps str_eq
        cong: dict_get_key_cong if_weak_cong)

lemma distances_at_bangalore: "dict_get distances ''bangalore'' = Some row_bangalore"
  by (simp only: distances_def[THEN dict_get_unfold] dict_get.simps str_eq
        cong: dict_get_key_cong if_weak_cong)

lemma distances_at_chennai: "dict_get distances ''chennai'' = Some row_chennai"
  by (simp only: distances_def[THEN dict_get_unfold] dict_get.simps str_eq
        cong: dict_get_key_cong if_weak_cong)

lemma distances_at_hyderabad: "dict_get distances ''hyderabad'' = Some row_hyderabad"
  by (simp only: distances_def[THEN dict_get_unfold] dict_get.simps str_eq
        cong: dict_get_key_cong if_weak_cong)

lemma distances_at_pune: "dict_get distances ''pune'' = None"
  by (simp only: distances_def[THEN dict_get_unfold] dict_get.simps str_eq
        cong: dict_get_key_cong if_weak_cong)

lemma distances_at_kolkata: "dict_get distances ''kolkata'' = None"
  by (simp only: distances_def[THEN dict_get_unfold] dict_get.simps str_eq
        cong: dict_get_key_cong if_weak_cong)

lemma distances_at_ahmedabad: "dict_get distances ''ahmedabad'' = None"
  by (simp only: distances_def[THEN dict_get_unfold] dict_get.simps str_eq
        cong: dict_get_key_cong if_weak_cong)

lemma distances_at_surat: "dict_get distances ''surat'' = None"
  by (simp only: distances_def[THEN dict_get_unfold] dict_get.simps str_eq
        cong: dict_get_key_cong if_weak_cong)

lemma distances_at_jaipur: "dict_get distances ''jaipur'' = None"
  by (simp only: distances_def[THEN dict_get_unfold] dict_get.simps str_eq
        cong: dict_get_key_cong if_weak_cong)

lemma distances_at_lucknow: "dict_get distances ''lucknow'' = None"
  by (simp only: distances_def[THEN dict_get_unfold] dict_get.simps str_eq
        cong: dict_get_key_cong if_weak_cong)

lemma distances_at_kanpur: "dict_get distances ''kanpur'' = None"
  by (simp only: distances_def[THEN dict_get_unfold] dict_get.simps str_eq
        cong: dict_get_key_cong if_weak_cong)

lemma distances_at_nagpur: "dict_get distances ''nagpur'' = None"
  by (simp only: distances_def[THEN dict_get_unfold] dict_get.simps str_eq
        cong: dict_get_key_cong if_weak_cong)

lemma distances_at_indore: "dict_get distances ''indore'' = None"
  by (simp only: distances_def[THEN dict_get_unfold] dict_get.simps str_eq
        cong: dict_get_key_cong if_weak_cong)

lemma distances_at_thane: "dict_get distances ''thane'' = None"
  by (simp only: distances_def[THEN dict_get_unfold] dict_get.simps str_eq
        cong: dict_get_key_cong if_weak_cong)

lemma distances_at_bhopal: "dict_get distances ''bhopal'' = None"
  by (simp only: distances_def[THEN dict_get_unfold] dict_get.simps str_eq
        cong: dict_get_key_cong if_weak_cong)

lemma distances_at_visakhapatnam: "dict_get distances ''visakhapatnam'' = None"
  by (simp only: distances_def[THEN dict_get_unfold] dict_get.simps str_eq
        cong: dict_get_key_cong if_weak_cong)

lemma distances_at_pimpri: "dict_get distances ''pimpri'' = None"
  by (simp only: distances_def[THEN dict_get_unfold] dict_get.simps str_eq
        cong: dict_get_key_cong if_weak_cong)

lemma distances_at_patna: "dict_get distances ''patna'' = None"
  by (simp only: distances_def[THEN dict_get_unfold] dict_get.simps str_eq
        cong: dict_get_key_cong if_weak_cong)

lemma distances_at_vadodara: "dict_get distances ''vadodara'' = None"
  by (simp only: distances_def[THEN dict_get_unfold] dict_get.simps str_eq
        cong: dict_get_key_cong if_weak_cong)

lemma distances_at_ghaziabad: "dict_get distances ''ghaziabad'' = None"
  by (simp only: distances_def[THEN dict_get_unfold] dict_get.simps str_eq
        cong: dict_get_key_cong if_weak_cong)

lemma distances_at_ludhiana: "dict_get distances ''ludhiana'' = None"
  by (simp only: distances_def[THEN dict_get_unfold] dict_get.simps str_eq
        cong: dict_get_key_cong if_weak_cong)

lemma distances_at_agra: "dict_get distances ''agra'' = None"
  by (simp only: distances_def[THEN dict_get_unfold] dict_get.simps str_eq
        cong: dict_get_key_cong if_weak_cong)

lemma distances_at_nashik: "dict_get distances ''nashik'' = None"
  by (simp only: distances_def[THEN dict_get_unfold] dict_get.simps str_eq
        cong: dict_get_key_cong if_weak_cong)

lemma distances_at_faridabad: "dict_get distances ''faridabad'' = None"
  by (simp only: distances_def[THEN dict_get_unfold] dict_get.simps str_eq
        cong: dict_get_key_cong if_weak_cong)

lemma distances_at_meerut: "dict_get distances ''meerut'' = None"
  by (simp only: distances_def[THEN dict_get_unfold] dict_get.simps str_eq
        cong: dict_get_key_cong if_weak_cong)

lemma distances_at_rajkot: "dict_get distances ''rajkot'' = None"
  by (simp only: distances_def[THEN dict_get_unfold] dict_get.simps str_eq
        cong: dict_get_key_cong if_weak_cong)

lemma distances_at_kalyan: "dict_get distances ''kalyan'' = None"
  by (simp only: distances_def[THEN dict_get_unfold] dict_get.simps str_eq
        cong: dict_get_key_cong if_weak_cong)

lemma distances_at_vasai: "dict_get distances ''vasai'' = None"
  by (simp only: distances_def[THEN dict_get_unfold] dict_get.simps str_eq
        cong: dict_get_key_cong if_weak_cong)

lemma distances_at_varanasi: "dict_get distances ''varanasi'' = None"
  by (simp only: distances_def[THEN dict_get_unfold] dict_get.simps str_eq
        cong: dict_get_key_cong if_weak_cong)

lemma distances_at_srinagar: "dict_get distances ''srinagar'' = None"
  by (simp only: distances_def[THEN dict_get_unfold] dict_get.simps str_eq
        cong: dict_get_key_cong if_weak_cong)

lemma distances_at_aurangabad: "dict_get distances ''aurangabad'' = None"
  by (simp only: distances_def[THEN dict_get_unfold] dict_get.simps str_eq
        cong: dict_get_key_cong if_weak_cong)

lemma distances_at_dhanbad: "dict_get distances ''dhanbad'' = None"
  by (simp only: distances_def[THEN dict_get_unfold] dict_get.simps str_eq
        cong: dict_get_key_cong if_weak_cong)

lemma distances_at_amritsar: "dict_get distances ''amritsar'' = None"
  by (simp only: distances_def[THEN dict_get_unfold] dict_get.simps str_eq
        cong: dict_get_key_cong if_weak_cong)

lemma distances_at_navi_mumbai: "dict_get distances ''navi mumbai'' = None"
  by (simp only: distances_def[THEN dict_get_unfold] dict_get.simps str_eq
        cong: dict_get_key_cong if_weak_cong)

lemma distances_at_allahabad: "dict_get distances ''allahabad'' = None"
  by (simp only: distances_def[THEN dict_get_unfold] dict_get.simps str_eq
        cong: dict_get_key_cong if_weak_cong)

lemma distances_at_ranchi: "dict_get distances ''ranchi'' = None"
  by (simp only: distances_def[THEN dict_get_unfold] dict_get.simps str_eq
        cong: dict_get_key_cong if_weak_cong)

lemma distances_at_howrah: "dict_get distances ''howrah'' = None"
  by (simp only: distances_def[THEN dict_get_unfold] dict_get.simps str_eq
        cong: dict_get_key_cong if_weak_cong)

lemma distances_at_coimbatore: "dict_get distances ''coimbatore'' = None"
  by (simp only: distances_def[THEN dict_get_unfold] dict_get.simps str_eq
        cong: dict_get_key_cong if_weak_cong)

lemma distances_at_jabalpur: "dict_get distances ''jabalpur'' = None"
  by (simp only: distances_def[THEN dict_get_unfold] dict_get.simps str_eq
        cong: dict_get_key_cong if_weak_cong)

lemma distances_at_gwalior: "dict_get distances ''gwalior'' = None"
  by (simp only: distances_def[THEN dict_get_unfold] dict_get.simps str_eq
        cong: dict_get_key_cong if_weak_cong)

lemmas outer_lookups =
  distances_at_kerala
  distances_at_tamil_nadu
  distances_at_karnataka
  distances_at_andhra_pradesh
  distances_at_telangana
  distances_at_goa
  distances_at_mumbai
  distances_at_maharashtra
  distances_at_gujarat
  distances_at_rajasthan
  distances_at_delhi
  distances_at_haryana
  distances_at_punjab
  distances_at_uttarakhand
  distances_at_himachal_pradesh
  distances_at_kashmir
  distances_at_uttar_pradesh
  distances_at_madhya_pradesh
  distances_at_chhattisgarh
  distances_at_jharkhand
  distances_at_bihar
  distances_at_west_bengal
  distances_at_odisha
  distances_at_assam
  distances_at_meghalaya
  distances_at_sikkim
  distances_at_arunachal_pradesh
  distances_at_nagaland
  distances_at_manipur
  distances_at_mizoram
  distances_at_tripura
  distances_at_bangalore
  distances_at_chennai
  distances_at_hyderabad
  distances_at_pune
  distances_at_kolkata
  distances_at_ahmedabad
  distances_at_surat
  distances_at_jaipur
  distances_at_lucknow
  distances_at_kanpur
  distances_at_nagpur
  distances_at_indore
  distances_at_thane
  distances_at_bhopal
  distances_at_visakhapatnam
  distances_at_pimpri
  distances_at_patna
  distances_at_vadodara
  distances_at_ghaziabad
  distances_at_ludhiana
  distances_at_agra
  distances_at_nashik
  distances_at_faridabad
  distances_at_meerut
  distances_at_rajkot
  distances_at_kalyan
  distances_at_vasai
  distances_at_varanasi
  distances_at_srinagar
  distances_at_aurangabad
  distances_at_dhanbad
  distances_at_amritsar
  distances_at_navi_mumbai
  distances_at_allahabad
  distances_at_ranchi
  distances_at_howrah
  distances_at_coimbatore
  distances_at_jabalpur
  distances_at_gwalior

lemma entries_kerala: "list_all (entry_ok ''kerala'') row_kerala"
  unfolding row_kerala_def
  by (simp only: list.pred_inject entry_ok.simps distance_get_def outer_lookups option.case
        row_lookups dict_get.simps str_eq rel_simps cong: dict_get_key_cong if_weak_cong)

lemma entries_tamil_nadu: "list_all (entry_ok ''tamil nadu'') row_tamil_nadu"
  unfolding row_tamil_nadu_def
  by (simp only: list.pred_inject entry_ok.simps distance_get_def outer_lookups option.case
        row_lookups dict_get.simps str_eq rel_simps cong: dict_get_key_cong if_weak_cong)

lemma entries_karnataka: "list_all (entry_ok ''karnataka'') row_karnataka"
  unfolding row_karnataka_def
  by (simp only: list.pred_inject entry_ok.simps distance_get_def outer_lookups option.case
        row_lookups dict_get.simps str_eq rel_simps cong: dict_get_key_cong if_weak_cong)

lemma entries_andhra_pradesh: "list_all (entry_ok ''andhra pradesh'') row_andhra_pradesh"
  unfolding row_andhra_pradesh_def
  by (simp only: list.pred_inject entry_ok.simps distance_get_def outer_lookups option.case
        row_lookups dict_get.simps str_eq rel_simps cong: dict_get_key_cong if_weak_cong)

lemma entries_telangana: "list_all (entry_ok ''telangana'') row_telangana"
  unfolding row_telangana_def
  by (simp only: list.pred_inject entry_ok.simps distance_get_def outer_lookups option.case
        row_lookups dict_get.simps str_eq rel_simps cong: dict_get_key_cong if_weak_cong)

lemma entries_goa: "list_all (entry_ok ''goa'') row_goa"
  unfolding row_goa_def
  by (simp only: list.pred_inject entry_ok.simps distance_get_def outer_lookups option.case
        row_lookups dict_get.simps str_eq rel_simps cong: dict_get_key_cong if_weak_cong)

lemma entries_mumbai: "list_all (entry_ok ''mumbai'') row_mumbai"
  unfolding row_mumbai_def
  by (simp only: list.pred_inject entry_ok.simps distance_get_def outer_lookups option.case
        row_lookups dict_get.simps str_eq rel_simps cong: dict_get_key_cong if_weak_cong)

lemma entries_maharashtra: "list_all (entry_ok ''maharashtra'') row_maharashtra"
  unfolding row_maharashtra_def
  by (simp only: list.pred_inject entry_ok.simps distance_get_def outer_lookups option.case
        row_lookups dict_get.simps str_eq rel_simps cong: dict_get_key_cong if_weak_cong)

lemma entries_gujarat: "list_all (entry_ok ''gujarat'') row_gujarat"
  unfolding row_gujarat_def
  by (simp only: list.pred_inject entry_ok.simps distance_get_def outer_lookups option.case
        row_lookups dict_get.simps str_eq rel_simps cong: dict_get_key_cong if_weak_cong)

lemma entries_rajasthan: "list_all (entry_ok ''rajasthan'') row_rajasthan"
  unfolding row_rajasthan_def
  by (simp only: list.pred_inject entry_ok.simps distance_get_def outer_lookups option.case
        row_lookups dict_get.simps str_eq rel_simps cong: dict_get_key_cong if_weak_cong)

lemma entries_delhi: "list_all (entry_ok ''delhi'') row_delhi"
  unfolding row_delhi_def
  by (simp only: list.pred_inject entry_ok.simps distance_get_def outer_lookups option.case
        row_lookups dict_get.simps str_eq rel_simps cong: dict_get_key_cong if_weak_cong)

lemma entries_haryana: "list_all (entry_ok ''haryana'') row_haryana"
  unfolding row_haryana_def
  by (simp only: list.pred_inject entry_ok.simps distance_get_def outer_lookups option.case
        row_lookups dict_get.simps str_eq rel_simps cong: dict_get_key_cong if_weak_cong)

lemma entries_punjab: "list_all (entry_ok ''punjab'') row_punjab"
  unfolding row_punjab_def
  by (simp only: list.pred_inject entry_ok.simps distance_get_def outer_lookups option.case
        row_lookups dict_get.simps str_eq rel_simps cong: dict_get_key_cong if_weak_cong)

lemma entries_uttarakhand: "list_all (entry_ok ''uttarakhand'') row_uttarakhand"
  unfolding row_uttarakhand_def
  by (simp only: list.pred_inject entry_ok.simps distance_get_def outer_lookups option.case
        row_lookups dict_get.simps str_eq rel_simps cong: dict_get_key_cong if_weak_cong)

lemma entries_himachal_pradesh: "list_all (entry_ok ''himachal pradesh'') row_himachal_pradesh"
  unfolding row_himachal_pradesh_def
  by (simp only: list.pred_inject entry_ok.simps distance_get_def outer_lookups option.case
        row_lookups dict_get.simps str_eq rel_simps cong: dict_get_key_cong if_weak_cong)

lemma entries_kashmir: "list_all (entry_ok ''kashmir'') row_kashmir"
  unfolding row_kashmir_def
  by (simp only: list.pred_inject entry_ok.simps distance_get_def outer_lookups option.case
        row_lookups dict_get.simps str_eq rel_simps cong: dict_get_key_cong if_weak_cong)

lemma entries_uttar_pradesh: "list_all (entry_ok ''uttar pradesh'') row_uttar_pradesh"
  unfolding row_uttar_pradesh_def
  by (simp only: list.pred_inject entry_ok.simps distance_get_def outer_lookups option.case
        row_lookups dict_get.simps str_eq rel_simps cong: dict_get_key_cong if_weak_cong)

lemma entries_madhya_pradesh: "list_all (entry_ok ''madhya pradesh'') row_madhya_pradesh"
  unfolding row_madhya_pradesh_def
  by (simp only: list.pred_inject entry_ok.simps distance_get_def outer_lookups option.case
        row_lookups dict_get.simps str_eq rel_simps cong: dict_get_key_cong if_weak_cong)

lemma entries_chhattisgarh: "list_all (entry_ok ''chhattisgarh'') row_chhattisgarh"
  unfolding row_chhattisgarh_def
  by (simp only: list.pred_inject entry_ok.simps distance_get_def outer_lookups option.case
        row_lookups dict_get.simps str_eq rel_simps cong: dict_get_key_cong if_weak_cong)

lemma entries_jharkhand: "list_all (entry_ok ''jharkhand'') row_jharkhand"
  unfolding row_jharkhand_def
  by (simp only: list.pred_inject entry_ok.simps distance_get_def outer_lookups option.case
        row_lookups dict_get.simps str_eq rel_simps cong: dict_get_key_cong if_weak_cong)

lemma entries_bihar: "list_all (entry_ok ''bihar'') row_bihar"
  unfolding row_bihar_def
  by (simp only: list.pred_inject entry_ok.simps distance_get_def outer_lookups option.case
        row_lookups dict_get.simps str_eq rel_simps cong: dict_get_key_cong if_weak_cong)

lemma entries_west_bengal: "list_all (entry_ok ''west bengal'') row_west_bengal"
  unfolding row_west_bengal_def
  by (simp only: list.pred_inject entry_ok.simps distance_get_def outer_lookups option.case
        row_lookups dict_get.simps str_eq rel_simps cong: dict_get_key_cong if_weak_cong)

lemma entries_odisha: "list_all (entry_ok ''odisha'') row_odisha"
  unfolding row_odisha_def
  by (simp only: list.pred_inject entry_ok.simps distance_get_def outer_lookups option.case
        row_lookups dict_get.simps str_eq rel_simps cong: dict_get_key_cong if_weak_cong)

lemma entries_assam: "list_all (entry_ok ''assam'') row_assam"
  unfolding row_assam_def
  by (simp only: list.pred_inject entry_ok.simps distance_get_def outer_lookups option.case
        row_lookups dict_get.simps str_eq rel_simps cong: dict_get_key_cong if_weak_cong)

lemma entries_meghalaya: "list_all (entry_ok ''meghalaya'') row_meghalaya"
  unfolding row_meghalaya_def
  by (simp only: list.pred_inject entry_ok.simps distance_get_def outer_lookups option.case
        row_lookups dict_get.simps str_eq rel_simps cong: dict_get_key_cong if_weak_cong)

lemma entries_sikkim: "list_all (entry_ok ''sikkim'') row_sikkim"
  unfolding row_sikkim_def
  by (simp only: list.pred_inject entry_ok.simps distance_get_def outer_lookups option.case
        row_lookups dict_get.simps str_eq rel_simps cong: dict_get_key_cong if_weak_cong)

lemma entries_arunachal_pradesh: "list_all (entry_ok ''arunachal pradesh'') row_arunachal_pradesh"
  unfolding row_arunachal_pradesh_def
  by (simp only: list.pred_inject entry_ok.simps distance_get_def outer_lookups option.case
        row_lookups dict_get.simps str_eq rel_simps cong: dict_get_key_cong if_weak_cong)

lemma entries_nagaland: "list_all (entry_ok ''nagaland'') row_nagaland"
  unfolding row_nagaland_def
  by (simp only: list.pred_inject entry_ok.simps distance_get_def outer_lookups option.case
        row_lookups dict_get.simps str_eq rel_simps cong: dict_get_key_cong if_weak_cong)

lemma entries_manipur: "list_all (entry_ok ''manipur'') row_manipur"
  unfolding row_manipur_def
  by (simp only: list.pred_inject entry_ok.simps distance_get_def outer_lookups option.case
        row_lookups dict_get.simps str_eq rel_simps cong: dict_get_key_cong if_weak_cong)

lemma entries_mizoram: "list_all (entry_ok ''mizoram'') row_mizoram"
  unfolding row_mizoram_def
  by (simp only: list.pred_inject entry_ok.simps distance_get_def outer_lookups option.case
        row_lookups dict_get.simps str_eq rel_simps cong: dict_get_key_cong if_weak_cong)

lemma entries_tripura: "list_all (entry_ok ''tripura'') row_tripura"
  unfolding row_tripura_def
  by (simp only: list.pred_inject entry_ok.simps distance_get_def outer_lookups option.case
        row_lookups dict_get.simps str_eq rel_simps cong: dict_get_key_cong if_weak_cong)

lemma entries_bangalore: "list_all (entry_ok ''bangalore'') row_bangalore"
  unfolding row_bangalore_def
  by (simp only: list.pred_inject entry_ok.simps distance_get_def outer_lookups option.case
        row_lookups dict_get.simps str_eq rel_simps cong: dict_get_key_cong if_weak_cong)

lemma entries_chennai: "list_all (entry_ok ''chennai'') row_chennai"
  unfolding row_chennai_def
  by (simp only: list.pred_inject entry_ok.simps distance_get_def outer_lookups option.case
        row_lookups dict_get.simps str_eq rel_simps cong: dict_get_key_cong if_weak_cong)

lemma entries_hyderabad: "list_all (entry_ok ''hyderabad'') row_hyderabad"
  unfolding row_hyderabad_def
  by (simp only: list.pred_inject entry_ok.simps distance_get_def outer_lookups option.case
        row_lookups dict_get.simps str_eq rel_simps cong: dict_get_key_cong if_weak_cong)

lemma distances_entries: "list_all (\<lambda>(a, row). list_all (entry_ok a) row) distances"
  unfolding distances_def
  by (simp only: list.pred_inject prod.case simp_thms
        entries_kerala
        entries_tamil_nadu
        entries_karnataka
        entries_andhra_pradesh
        entries_telangana
        entries_goa
        entries_mumbai
        entries_maharashtra
        entries_gujarat
        entries_rajasthan
        entries_delhi
        entries_haryana
        entries_punjab
        entries_uttarakhand
        entries_himachal_pradesh
        entries_kashmir
        entries_uttar_pradesh
        entries_madhya_pradesh
        entries_chhattisgarh
        entries_jharkhand
        entries_bihar
        entries_west_bengal
        entries_odisha
        entries_assam
        entries_meghalaya
        entries_sikkim
        entries_arunachal_pradesh
        entries_nagaland
        entries_manipur
        entries_mizoram
        entries_tripura
        entries_bangalore
        entries_chennai
        entries_hyderabad)

lemma distance_get_entry:
  assumes "distance_get a b = Some v"
  shows "entry_ok a (b, v)"
proof -
  from assms obtain row where r: "dict_get distances a = Some row" and v: "dict_get row b = Some v"
    by (auto simp: distance_get_def split: option.splits)
  from r have "(a, row) \<in> set distances" by (rule dict_get_SomeD)
  with distances_entries have "list_all (entry_ok a) row"
    by (auto simp: list_all_iff)
  moreover from v have "(b, v) \<in> set row" by (rule dict_get_SomeD)
  ultimately show ?thesis by (auto simp: list_all_iff)
qed

lemma distance_get_nonzero: "distance_get a b = Some v \<Longrightarrow> v \<noteq> 0"
  using distance_get_entry[of a b v] by simp

lemma distance_get_sym: "distance_get a b = Some v \<Longrightarrow> distance_get b a = Some w \<Longrightarrow> w = v"
  using distance_get_entry[of a b v] by simp

lemma trip_distance_spec: "trip_distance source destination = spec_distance source destination"
  by (auto simp: trip_distance_def spec_distance_def py_or_def truthy_def Let_def
           split: option.splits dest: distance_get_nonzero)

lemma spec_distance_commute: "spec_distance a b = spec_distance b a"
  by (auto simp: spec_distance_def split: option.splits dest: distance_get_sym)

lemma duration_for_range: "2 \<le> duration_for m d \<and> duration_for m d \<le> 5"
  by (simp add: duration_for_def)

lemma duration_for_booking: "m \<noteq> ''Self'' \<Longrightarrow> duration_for m d \<le> 4"
  by (simp add: duration_for_def)

section \<open>Claims about the minimum duration\<close>


text \<open>
  Claim C8.  \<open>calculate_minimum_duration\<close> is commutative in source and destination:
  whenever the table lists a pair in both directions, both directions carry the same
  distance.
\<close>

theorem calculate_minimum_duration_commute:
  "calculate_minimum_duration source destination travel_mode =
     calculate_minimum_duration destination source travel_mode"
  by (simp add: calculate_minimum_duration_def trip_distance_spec
        spec_distance_commute[of source destination])

text \<open>
  Claim C9.  \<open>calculate_minimum_duration\<close> returns a number of days between 2 and 5, at
  most 4 in every mode other than \<open>Self\<close>; so \<open>get_feasible_durations\<close> never returns the
  empty list, and its result always has the 7-day and the 10-day option of the menu.
\<close>

theorem minimum_duration_range:
  "2 \<le> calculate_minimum_duration source destination travel_mode
   \<and> calculate_minimum_duration source destination travel_mode \<le> 5
   \<and> (travel_mode \<noteq> ''Self'' \<longrightarrow>
        calculate_minimum_duration source destination travel_mode \<le> 4)
   \<and> get_feasible_durations source destination travel_mode \<noteq> []
   \<and> \<lparr>label = ''5-7 days'', val = ''7 days'', days = 7\<rparr>
        \<in> set (get_feasible_durations source destination travel_mode)
   \<and> \<lparr>label = ''1 week+'', val = ''10 days'', days = 10\<rparr>
        \<in> set (get_feasible_durations source destination travel_mode)"
proof -
  let ?c = "calculate_minimum_duration source destination travel_mode"
  have r: "2 \<le> ?c \<and> ?c \<le> 5"
    unfolding calculate_minimum_duration_def by (rule duration_for_range)
  have b: "travel_mode \<noteq> ''Self'' \<longrightarrow> ?c \<le> 4"
    unfolding calculate_minimum_duration_def by (simp add: duration_for_booking)
  have m7: "\<lparr>label = ''5-7 days'', val = ''7 days'', days = 7\<rparr>
        \<in> set (get_feasible_durations source destination travel_mode)"
    using r by (simp add: get_feasible_durations_def all_durations_def Let_def)
  have m10: "\<lparr>label = ''1 week+'', val = ''10 days'', days = 10\<rparr>
        \<in> set (get_feasible_durations source destination travel_mode)"
    using r by (simp add: get_feasible_durations_def all_durations_def Let_def)
  from m7 have ne: "get_feasible_durations source destination travel_mode \<noteq> []"
    by auto
  from r b ne m7 m10 show ?thesis by blast
qed

text \<open>A trip from Kerala to Delhi, booked: 2200 km, so four days.\<close>

lemma lower_kerala: "py_lower ''Kerala'' = ''kerala''"
  by code_simp

lemma lower_delhi: "py_lower ''Delhi'' = ''delhi''"
  by code_simp

lemma distance_kerala_delhi: "distance_get ''kerala'' ''delhi'' = Some 2200"
  by (simp only: distance_get_def distances_at_kerala option.case
        row_kerala_def[THEN dict_get_unfold] dict_get.simps str_eq
        cong: dict_get_key_cong if_weak_cong)

lemma duration_kerala_delhi: "calculate_minimum_duration ''Kerala'' ''Delhi'' ''Booking'' = 4"
  by (simp add: calculate_minimum_duration_def duration_for_def trip_distance_spec
        spec_distance_def lower_kerala lower_delhi distance_kerala_delhi)

theorem minimum_duration_range_witness:
  "''Booking'' \<noteq> ''Self'' \<and> calculate_minimum_duration ''Kerala'' ''Delhi'' ''Booking'' \<le> 4"
  using minimum_duration_range[of "''Kerala''" "''Delhi''" "''Booking''"] by simp

section \<open>The saved-trips store\<close>

lemma dict_get_set: "dict_get (dict_set d k v) k' = (if k' = k then Some v else dict_get d k')"
  by (induction d k v rule: dict_set.induct) auto

lemma keys_dict_set: "fst ` set (dict_set d k v) = insert k (fst ` set d)"
  by (induction d k v rule: dict_set.induct) auto

lemma distinct_dict_set: "distinct (map fst d) \<Longrightarrow> distinct (map fst (dict_set d k v))"
  by (induction d k v rule: dict_set.induct) (auto simp: keys_dict_set)

lemma dict_get_None_iff: "dict_get d k = None \<longleftrightarrow> k \<notin> fst ` set d"
  by (induction d k rule: dict_get.induct) auto

lemma keys_dict_del_subset: "fst ` set (dict_del d k) \<subseteq> fst ` set d"
  by (induction d k rule: dict_del.induct) auto

lemma distinct_dict_del: "distinct (map fst d) \<Longrightarrow> distinct (map fst (dict_del d k))"
proof (induction d)
  case Nil
  show ?case by simp
next
  case (Cons p ps)
  obtain a b where p: "p = (a, b)" by (cases p)
  from Cons.prems p have na: "a \<notin> fst ` set ps" and d: "distinct (map fst ps)" by simp_all
  from na keys_dict_del_subset[of ps k] have "a \<notin> fst ` set (dict_del ps k)" by blast
  with Cons.IH[OF d] d show ?case by (simp add: p)
qed

lemma dict_get_del:
  "distinct (map fst d) \<Longrightarrow> dict_get (dict_del d k) k' = (if k' = k then None else dict_get d k')"
proof (induction d)
  case Nil
  show ?case by simp
next
  case (Cons p ps)
  obtain a b where p: "p = (a, b)" by (cases p)
  from Cons.prems p have na: "dict_get ps a = None" and d: "distinct (map fst ps)"
    by (simp_all add: dict_get_None_iff)
  show ?case
  proof (cases "a = k")
    case True
    with na show ?thesis by (simp add: p)
  next
    case False
    with Cons.IH[OF d] show ?thesis by (cases "k' = k") (simp_all add: p)
  qed
qed

lemma dict_values_get:
  "distinct (map fst d) \<Longrightarrow> set (dict_values d) = {v. \<exists>k. dict_get d k = Some v}"
proof (induction d)
  case Nil
  show ?case by (simp add: dict_values_def)
next
  case (Cons p ps)
  obtain a b where p: "p = (a, b)" by (cases p)
  from Cons.prems p have na: "dict_get ps a = None" and d: "distinct (map fst ps)"
    by (simp_all add: dict_get_None_iff)
  have "set (dict_values (p # ps)) = insert b (set (dict_values ps))"
    by (simp add: dict_values_def p)
  also have "\<dots> = insert b {v. \<exists>k. dict_get ps k = Some v}"
    using Cons.IH[OF d] by simp
  also have "\<dots> = {v. \<exists>k. dict_get (p # ps) k = Some v}"
  proof (intro set_eqI iffI)
    fix v assume "v \<in> insert b {v. \<exists>k. dict_get ps k = Some v}"
    then consider "v = b" | k where "dict_get ps k = Some v" by auto
    then show "v \<in> {v. \<exists>k. dict_get (p # ps) k = Some v}"
    proof cases
      case 1
      then have "dict_get (p # ps) a = Some v" by (simp add: p)
      then show ?thesis by blast
    next
      case 2
      with na have "k \<noteq> a" by auto
      with 2 have "dict_get (p # ps) k = Some v" by (simp add: p)
      then show ?thesis by blast
    qed
  next
    fix v assume "v \<in> {v. \<exists>k. dict_get (p # ps) k = Some v}"
    then obtain k where "dict_get (p # ps) k = Some v" by blast
    then show "v \<in> insert b {v. \<exists>k. dict_get ps k = Some v}"
      by (auto simp: p split: if_splits)
  qed
  finally show ?case .
qed

text \<open>
  Claim C5.  The store is kept consistent by the three endpoints.  \<open>save_trip\<close> stores the
  record under the id of the request (under \<open>trip_\<close> and the timestamp when the request
  has no id, or an empty one), answers with that id, and changes no other entry;
  \<open>get_saved_trips\<close> returns the stored records, each of them and nothing else, and does
  not change the store; \<open>delete_trip\<close> of a stored id removes that entry and no other one,
  and \<open>delete_trip\<close> of an id that is not stored answers 404 \<open>Trip not found\<close> and leaves
  the store as it is.  The keys of the store stay unique throughout.
\<close>

theorem saved_trips_endpoints:
  assumes "distinct (map fst saved_trips)"
  shows
    "(let trip_id = save_trip_id ts request;
          record = \<lparr>st_id = trip_id, st_name = rq_name request,
                    st_trip_data = rq_trip_data request,
                    st_created_at = created, st_updated_at = updated\<rparr>;
          (response, saved_trips') = save_trip ts created updated request saved_trips
      in response = Inr \<lparr>sr_id = trip_id, sr_message = ''Trip saved successfully''\<rparr>
         \<and> dict_get saved_trips' trip_id = Some record
         \<and> (\<forall>k. k \<noteq> trip_id \<longrightarrow> dict_get saved_trips' k = dict_get saved_trips k)
         \<and> distinct (map fst saved_trips'))
     \<and> save_trip_id ts request =
         (case rq_id request of
            None \<Rightarrow> ''trip_'' @ ts
          | Some i \<Rightarrow> if i = [] then ''trip_'' @ ts else i)
     \<and> (let (response, saved_trips') = get_saved_trips saved_trips
        in saved_trips' = saved_trips
           \<and> (\<exists>trips. response = Inr trips \<and> trips = map snd saved_trips
                \<and> set trips = {v. \<exists>k. dict_get saved_trips k = Some v}))
     \<and> (let (response, saved_trips') = delete_trip trip_id saved_trips
        in if dict_get saved_trips trip_id = None
           then response = Inl (HTTPException 404 ''Trip not found'')
                \<and> saved_trips' = saved_trips
           else response = Inr ''Trip deleted successfully''
                \<and> dict_get saved_trips' trip_id = None
                \<and> (\<forall>k. k \<noteq> trip_id \<longrightarrow> dict_get saved_trips' k = dict_get saved_trips k)
                \<and> distinct (map fst saved_trips'))"
proof -
  have save:
    "(let trip_id = save_trip_id ts request;
          record = \<lparr>st_id = trip_id, st_name = rq_name request,
                    st_trip_data = rq_trip_data request,
                    st_created_at = created, st_updated_at = updated\<rparr>;
          (response, saved_trips') = save_trip ts created updated request saved_trips
      in response = Inr \<lparr>sr_id = trip_id, sr_message = ''Trip saved successfully''\<rparr>
         \<and> dict_get saved_trips' trip_id = Some record
         \<and> (\<forall>k. k \<noteq> trip_id \<longrightarrow> dict_get saved_trips' k = dict_get saved_trips k)
         \<and> distinct (map fst saved_trips'))"
    using assms by (simp add: save_trip_def Let_def dict_get_set distinct_dict_set)
  have ident:
    "save_trip_id ts request =
         (case rq_id request of
            None \<Rightarrow> ''trip_'' @ ts
          | Some i \<Rightarrow> if i = [] then ''trip_'' @ ts else i)"
    by (simp add: save_trip_id_def split: option.splits)
  have get:
    "(let (response, saved_trips') = get_saved_trips saved_trips
        in saved_trips' = saved_trips
           \<and> (\<exists>trips. response = Inr trips \<and> trips = map snd saved_trips
                \<and> set trips = {v. \<exists>k. dict_get saved_trips k = Some v}))"
    using dict_values_get[OF assms] by (simp add: get_saved_trips_def dict_values_def)
  have del:
    "(let (response, saved_trips') = delete_trip trip_id saved_trips
        in if dict_get saved_trips trip_id = None
           then response = Inl (HTTPException 404 ''Trip not found'')
                \<and> saved_trips' = saved_trips
           else response = Inr ''Trip deleted successfully''
                \<and> dict_get saved_trips' trip_id = None
                \<and> (\<forall>k. k \<noteq> trip_id \<longrightarrow> dict_get saved_trips' k = dict_get saved_trips k)
                \<and> distinct (map fst saved_trips'))"
    using assms by (simp add: delete_trip_def dict_contains_def dict_get_del distinct_dict_del)
  from save ident get del show ?thesis by (intro conjI)
qed

text \<open>
  A store with the one trip \<open>t1\<close>.  A request without id and a request with the empty id
  are both stored under \<open>trip_\<close> and the timestamp, after \<open>t1\<close>, which stays as it was; a
  request with the id \<open>t1\<close> replaces that trip; \<open>get_saved_trips\<close> lists the one trip;
  deleting \<open>t2\<close>, which is not stored, answers 404 and changes nothing; deleting \<open>t1\<close>
  empties the store.
\<close>

theorem saved_trips_endpoints_witness:
  "distinct (map fst [(''t1'', \<lparr>st_id = ''t1'', st_name = ''Goa'', st_trip_data = (),
                               st_created_at = ''c1'', st_updated_at = ''u1''\<rparr>)])
   \<and> save_trip ''5.0'' ''c2'' ''u2'' \<lparr>rq_id = None, rq_name = ''Kerala'', rq_trip_data = ()\<rparr>
         [(''t1'', \<lparr>st_id = ''t1'', st_name = ''Goa'', st_trip_data = (),
                    st_created_at = ''c1'', st_updated_at = ''u1''\<rparr>)]
       = (Inr \<lparr>sr_id = ''trip_5.0'', sr_message = ''Trip saved successfully''\<rparr>,
          [(''t1'', \<lparr>st_id = ''t1'', st_name = ''Goa'', st_trip_data = (),
                     st_created_at = ''c1'', st_updated_at = ''u1''\<rparr>),
           (''trip_5.0'', \<lparr>st_id = ''trip_5.0'', st_name = ''Kerala'', st_trip_data = (),
                           st_created_at = ''c2'', st_updated_at = ''u2''\<rparr>)])
   \<and> save_trip ''5.0'' ''c2'' ''u2''
         \<lparr>rq_id = Some '''', rq_name = ''Kerala'', rq_trip_data = ()\<rparr>
         [(''t1'', \<lparr>st_id = ''t1'', st_name = ''Goa'', st_trip_data = (),
                    st_created_at = ''c1'', st_updated_at = ''u1''\<rparr>)]
       = (Inr \<lparr>sr_id = ''trip_5.0'', sr_message = ''Trip saved successfully''\<rparr>,
          [(''t1'', \<lparr>st_id = ''t1'', st_name = ''Goa'', st_trip_data = (),
                     st_created_at = ''c1'', st_updated_at = ''u1''\<rparr>),
           (''trip_5.0'', \<lparr>st_id = ''trip_5.0'', st_name = ''Kerala'', st_trip_data = (),
                           st_created_at = ''c2'', st_updated_at = ''u2''\<rparr>)])
   \<and> save_trip ''5.0'' ''c2'' ''u2''
         \<lparr>rq_id = Some ''t1'', rq_name = ''Kerala'', rq_trip_data = ()\<rparr>
         [(''t1'', \<lparr>st_id = ''t1'', st_name = ''Goa'', st_trip_data = (),
                    st_created_at = ''c1'', st_updated_at = ''u1''\<rparr>)]
       = (Inr \<lparr>sr_id = ''t1'', sr_message = ''Trip saved successfully''\<rparr>,
          [(''t1'', \<lparr>st_id = ''t1'', st_name = ''Kerala'', st_trip_data = (),
                     st_created_at = ''c2'', st_updated_at = ''u2''\<rparr>)])
   \<and> get_saved_trips [(''t1'', \<lparr>st_id = ''t1'', st_name = ''Goa'', st_trip_data = (),
                                st_created_at = ''c1'', st_updated_at = ''u1''\<rparr>)]
       = (Inr [\<lparr>st_id = ''t1'', st_name = ''Goa'', st_trip_data = (),
                st_created_at = ''c1'', st_updated_at = ''u1''\<rparr>],
          [(''t1'', \<lparr>st_id = ''t1'', st_name = ''Goa'', st_trip_data = (),
                     st_created_at = ''c1'', st_updated_at = ''u1''\<rparr>)])
   \<and> delete_trip ''t2'' [(''t1'', \<lparr>st_id = ''t1'', st_name = ''Goa'', st_trip_data = (),
                               st_created_at = ''c1'', st_updated_at = ''u1''\<rparr>)]
       = (Inl (HTTPException 404 ''Trip not found''),
          [(''t1'', \<lparr>st_id = ''t1'', st_name = ''Goa'', st_trip_data = (),
                               st_created_at = ''c1'', st_updated_at = ''u1''\<rparr>)])
   \<and> delete_trip ''t1'' [(''t1'', \<lparr>st_id = ''t1'', st_name = ''Goa'', st_trip_data = (),
                               st_created_at = ''c1'', st_updated_at = ''u1''\<rparr>)]
       = (Inr ''Trip deleted successfully'', [])"
  using
    saved_trips_endpoints[of
      "[(''t1'', \<lparr>st_id = ''t1'', st_name = ''Goa'', st_trip_data = (),
                 st_created_at = ''c1'', st_updated_at = ''u1''\<rparr>)]"
      "''5.0''" "\<lparr>rq_id = None, rq_name = ''Kerala'', rq_trip_data = ()\<rparr>"
      "''c2''" "''u2''" "''t2''"]
    saved_trips_endpoints[of
      "[(''t1'', \<lparr>st_id = ''t1'', st_name = ''Goa'', st_trip_data = (),
                 st_created_at = ''c1'', st_updated_at = ''u1''\<rparr>)]"
      "''5.0''" "\<lparr>rq_id = Some '''', rq_name = ''Kerala'', rq_trip_data = ()\<rparr>"
      "''c2''" "''u2''" "''t1''"]
    saved_trips_endpoints[of
      "[(''t1'', \<lparr>st_id = ''t1'', st_name = ''Goa'', st_trip_data = (),
                 st_created_at = ''c1'', st_updated_at = ''u1''\<rparr>)]"
      "''5.0''" "\<lparr>rq_id = Some ''t1'', rq_name = ''Kerala'', rq_trip_data = ()\<rparr>"
      "''c2''" "''u2''" "''t1''"]
  by (simp add: save_trip_def save_trip_id_def get_saved_trips_def dict_values_def
        delete_trip_def dict_contains_def Let_def)

section \<open>Budget validation\<close>

subsection \<open>Rounding to the nearest double\<close>

lemma find_upto_first:
  "a \<le> e \<Longrightarrow> e \<le> b \<Longrightarrow> P e \<Longrightarrow> (\<And>j. a \<le> j \<Longrightarrow> j < e \<Longrightarrow> \<not> P j)
     \<Longrightarrow> find P [a..b] = Some e"
proof (induction a b rule: upto.induct)
  case (1 i j)
  from "1.prems" have ij: "i \<le> j" by simp
  show ?case
  proof (cases "i = e")
    case True
    with ij "1.prems"(3) show ?thesis by (simp add: upto_rec1)
  next
    case False
    with "1.prems" have lt: "i < e" by simp
    with "1.prems"(4)[of i] have np: "\<not> P i" by simp
    have "find P [i + 1..j] = Some e"
    proof (rule "1.IH"[OF ij])
      show "i + 1 \<le> e" using lt by simp
      show "e \<le> j" by (rule "1.prems"(2))
      show "P e" by (rule "1.prems"(3))
      show "\<And>k. i + 1 \<le> k \<Longrightarrow> k < e \<Longrightarrow> \<not> P k" using "1.prems"(4) by simp
    qed
    with np ij show ?thesis by (simp add: upto_rec1)
  qed
qed

lemma ulp_exponent_eq:
  assumes "- 1074 \<le> e" "e \<le> 971" "x < 2 powi (e + 53)" "e = - 1074 \<or> 2 powi (e + 52) \<le> x"
  shows "ulp_exponent x = Some e"
  unfolding ulp_exponent_def
proof (rule find_upto_first[OF assms(1) assms(2)])
  show "x < 2 powi (e + 53)" by (rule assms(3))
next
  fix j :: int
  assume j: "- 1074 \<le> j" "j < e"
  with assms(4) have le: "2 powi (e + 52) \<le> x" by auto
  have "(2::rat) powi (j + 53) \<le> 2 powi (e + 52)"
    by (rule power_int_increasing) (use j in auto)
  with le show "\<not> x < 2 powi (j + 53)" by simp
qed

lemma round_half_even_near:
  assumes "\<bar>q - of_int N\<bar> < 1 / 2"
  shows "round_half_even q = N"
proof (cases "of_int N \<le> q")
  case True
  with assms have "\<lfloor>q\<rfloor> = N" by (intro floor_unique) auto
  with assms True show ?thesis by (simp add: round_half_even_def Let_def)
next
  case False
  with assms have f: "\<lfloor>q\<rfloor> = N - 1" by (intro floor_unique) auto
  from False assms have "1 / 2 < q - of_int (N - 1)" by auto
  with f show ?thesis by (simp add: round_half_even_def Let_def)
qed

lemma f64_round_near_int:
  fixes n :: int and k :: nat and x :: rat
  assumes k: "k \<le> 52"
    and lo: "2 ^ k \<le> x" and hi: "x < 2 ^ (k + 1)"
    and near: "\<bar>x - of_int n\<bar> * 2 ^ (53 - k) < 1"
  shows "f64_round x = Finite (of_int n)"
proof -
  let ?e = "int k - 52"
  let ?s = "(2::rat) ^ (52 - k)"
  have "(0::rat) < 2 ^ k" by simp
  with lo have xpos: "0 < x" by linarith
  have e1: "?e + 53 = int (k + 1)" by simp
  have e2: "?e + 52 = int k" by simp
  have p1: "(2::rat) powi (?e + 53) = 2 ^ (k + 1)"
    unfolding e1 by (rule power_int_of_nat)
  have p2: "(2::rat) powi (?e + 52) = 2 ^ k"
    unfolding e2 by (rule power_int_of_nat)
  have ulp: "ulp_exponent x = Some ?e"
  proof (rule ulp_exponent_eq)
    show "- 1074 \<le> ?e" by simp
    show "?e \<le> 971" using k by simp
    show "x < 2 powi (?e + 53)" unfolding p1 by (rule hi)
    show "?e = - 1074 \<or> 2 powi (?e + 52) \<le> x" unfolding p2 using lo by simp
  qed
  have e3: "?e = - int (52 - k)" using k by simp
  have sc: "(2::rat) powi ?e = 1 / ?s"
    unfolding e3 by (simp add: power_int_minus_divide)
  have spos: "0 < ?s" by simp
  have quo: "x / 2 powi ?e = x * ?s" unfolding sc by simp
  have "53 - k = Suc (52 - k)" using k by simp
  then have s2: "(2::rat) ^ (53 - k) = 2 * ?s" by simp
  from near have near': "\<bar>x - of_int n\<bar> * ?s < 1 / 2" unfolding s2 by simp
  have "\<bar>x * ?s - of_int (n * 2 ^ (52 - k))\<bar> = \<bar>(x - of_int n) * ?s\<bar>"
    by (simp add: algebra_simps)
  also have "\<dots> = \<bar>x - of_int n\<bar> * ?s"
    by (simp add: abs_mult)
  finally have "\<bar>x * ?s - of_int (n * 2 ^ (52 - k))\<bar> < 1 / 2"
    using near' by simp
  then have r: "round_half_even (x * ?s) = n * 2 ^ (52 - k)"
    by (rule round_half_even_near)
  have ne: "?e \<noteq> 971" using k by simp
  have unscale: "of_int (n * 2 ^ (52 - k)) * 2 powi ?e = (of_int n :: rat)"
    unfolding sc by simp
  have "f64_round_abs x = Finite (of_int n)"
    unfolding f64_round_abs_def ulp option.case quo r Let_def using ne unscale by simp
  with xpos show ?thesis by (simp add: f64_round_def)
qed


lemma f64_round_near:
  fixes x :: rat
  assumes e: "- 1074 \<le> e" "e < 971"
    and hi: "x < 2 powi (e + 53)" and lo: "e = - 1074 \<or> 2 powi (e + 52) \<le> x"
    and x0: "0 \<le> x" and near: "\<bar>x / 2 powi e - of_int N\<bar> < 1 / 2"
  shows "f64_round x = Finite (of_int N * 2 powi e)"
proof -
  have ulp: "ulp_exponent x = Some e"
    by (rule ulp_exponent_eq) (use e hi lo in auto)
  have r: "round_half_even (x / 2 powi e) = N"
    using near by (rule round_half_even_near)
  have "f64_round_abs x = Finite (of_int N * 2 powi e)"
    unfolding f64_round_abs_def ulp option.case r Let_def using e by simp
  with x0 show ?thesis by (simp add: f64_round_def)
qed


lemma f64_round_0: "f64_round 0 = Finite 0"
proof -
  have "f64_round 0 = Finite (of_int 0 * 2 powi (- 1074))"
  proof (rule f64_round_near)
    show "(0::rat) < 2 powi (- 1074 + 53)" by (rule zero_less_power_int) simp
    show "(- 1074::int) = - 1074 \<or> 2 powi (- 1074 + 52) \<le> (0::rat)" by (rule disjI1) (rule refl)
    show "\<bar>(0::rat) / 2 powi (- 1074) - of_int 0\<bar> < 1 / 2" unfolding div_0 of_int_0 by simp
  qed simp_all
  then show ?thesis by (simp only: of_int_0 mult_zero_left)
qed


lemma int_binade:
  fixes n :: int
  assumes "0 < n" "n < 2 ^ 53"
  shows "\<exists>k\<le>52. 2 ^ k \<le> n \<and> n < 2 ^ (k + 1)"
proof -
  from assms(1) have "1 \<le> nat n" by simp
  from ex_power_ivl1[OF order_refl this] obtain k where k: "2 ^ k \<le> nat n" "nat n < 2 ^ (k + 1)"
    by blast
  from k(1) have "int (2 ^ k) \<le> int (nat n)" by (simp only: of_nat_le_iff)
  with assms(1) have lo: "2 ^ k \<le> n" by simp
  from k(2) have "int (nat n) < int (2 ^ (k + 1))" by (simp only: of_nat_less_iff)
  with assms(1) have hi: "n < 2 ^ (k + 1)" by simp
  from lo assms(2) have "(2::int) ^ k < 2 ^ 53" by linarith
  then have "k < 53" by (rule power_less_imp_less_exp[rotated]) simp
  with lo hi show ?thesis by (intro exI[of _ k]) simp
qed


lemma rat_binade:
  fixes n :: int and k :: nat
  assumes "2 ^ k \<le> n" "n < 2 ^ (k + 1)"
  shows "(2::rat) ^ k \<le> of_int n" and "(of_int n :: rat) + 1 \<le> 2 ^ (k + 1)"
proof -
  from assms(1) have "(of_int (2 ^ k) :: rat) \<le> of_int n" by (simp only: of_int_le_iff)
  then show "(2::rat) ^ k \<le> of_int n" by simp
  from assms(2) have "n + 1 \<le> 2 ^ (k + 1)" by simp
  then have "(of_int (n + 1) :: rat) \<le> of_int (2 ^ (k + 1))" by (simp only: of_int_le_iff)
  then show "(of_int n :: rat) + 1 \<le> 2 ^ (k + 1)" by simp
qed

lemma pow_split_54:
  assumes "k \<le> 52"
  shows "(2::rat) ^ (k + 1) * 2 ^ (53 - k) = 2 ^ 54"
proof -
  from assms have "k + 1 + (53 - k) = 54" by simp
  then show ?thesis by (simp only: power_add[symmetric])
qed

lemma f64_round_up:
  fixes n :: int
  assumes "0 \<le> n" "n < 2 ^ 53"
  shows "f64_round (of_int n * (1 + 1 / 2 ^ 54)) = Finite (of_int n)"
proof (cases "n = 0")
  case True
  then show ?thesis by (simp only: of_int_0 mult_zero_left f64_round_0)
next
  case False
  with assms(1) have pos: "0 < n" by simp
  from int_binade[OF pos assms(2)] obtain k
    where k: "k \<le> 52" "2 ^ k \<le> n" "n < 2 ^ (k + 1)" by blast
  define r :: rat where "r = of_int n"
  define c :: rat where "c = 2 ^ 54"
  define x where "x = r * (1 + 1 / c)"
  have cpos: "0 < c" by (simp add: c_def)
  note rb = rat_binade[OF k(2) k(3), folded r_def]
  from pos have rpos: "0 < r" by (simp add: r_def)
  from assms(2) have "(of_int n :: rat) < of_int (2 ^ 53)" by (simp only: of_int_less_iff)
  then have "r < 2 ^ 53" by (simp add: r_def)
  then have rc: "r < c" by (simp add: c_def)
  have xr: "x - r = r / c" by (simp add: x_def algebra_simps)
  from rpos cpos have dpos: "0 < r / c" by simp
  from rc cpos have small: "r / c < 1" by simp
  have "f64_round x = Finite (of_int n)"
  proof (rule f64_round_near_int[OF k(1)])
    show "2 ^ k \<le> x" using rb(1) dpos xr by linarith
    show "x < 2 ^ (k + 1)" using rb(2) small xr by linarith
    have "\<bar>x - r\<bar> = r / c" unfolding xr using dpos by (rule abs_of_pos)
    then have ab: "\<bar>x - of_int n\<bar> = r / c" by (simp only: r_def)
    have "r * 2 ^ (53 - k) < c"
    proof -
      from rb(2) have "r < 2 ^ (k + 1)" by linarith
      then have "r * 2 ^ (53 - k) < 2 ^ (k + 1) * 2 ^ (53 - k)"
        by (rule mult_strict_right_mono) simp
      then show ?thesis by (simp only: pow_split_54[OF k(1)] c_def)
    qed
    then have "r * 2 ^ (53 - k) / c < 1" using cpos by simp
    then show "\<bar>x - of_int n\<bar> * 2 ^ (53 - k) < 1" unfolding ab by simp
  qed
  then show ?thesis by (simp only: x_def r_def c_def)
qed




lemma f64_round_exact:
  fixes n :: int
  assumes "0 \<le> n" "n < 2 ^ 53"
  shows "f64_round (of_int n) = Finite (of_int n)"
proof (cases "n = 0")
  case True
  then show ?thesis by (simp only: of_int_0 f64_round_0)
next
  case False
  with assms(1) have pos: "0 < n" by simp
  from int_binade[OF pos assms(2)] obtain k
    where k: "k \<le> 52" "2 ^ k \<le> n" "n < 2 ^ (k + 1)" by blast
  note rb = rat_binade[OF k(2) k(3)]
  show ?thesis
  proof (rule f64_round_near_int[OF k(1)])
    show "2 ^ k \<le> (of_int n :: rat)" by (rule rb(1))
    show "(of_int n :: rat) < 2 ^ (k + 1)" using rb(2) by linarith
    show "\<bar>(of_int n :: rat) - of_int n\<bar> * 2 ^ (53 - k) < 1" by simp
  qed
qed



lemma not_3_dvd_pow2: "\<not> (3::int) dvd 2 ^ k"
proof (induction k)
  case 0
  show ?case by simp
next
  case (Suc k)
  have step: "(3::int) dvd 2 * m \<Longrightarrow> 3 dvd m" for m by presburger
  show ?case
  proof
    assume "(3::int) dvd 2 ^ Suc k"
    then have "(3::int) dvd 2 * 2 ^ k" by simp
    then have "(3::int) dvd 2 ^ k" by (rule step)
    with Suc show False by blast
  qed
qed



lemma f64_round_down:
  fixes j :: int
  assumes "0 \<le> j" "3 * j < 2 ^ 53"
  shows "f64_round (of_int (3 * j) * (1 - 1 / (3 * 2 ^ 53))) = Finite (of_int (3 * j))"
proof (cases "j = 0")
  case True
  then show ?thesis by (simp only: mult_zero_right of_int_0 mult_zero_left f64_round_0)
next
  case False
  define n where "n = 3 * j"
  from False assms(1) have pos: "0 < n" by (simp add: n_def)
  from assms(2) have n53: "n < 2 ^ 53" by (simp only: n_def)
  from int_binade[OF pos n53] obtain k
    where k: "k \<le> 52" "2 ^ k \<le> n" "n < 2 ^ (k + 1)" by blast
  have "n \<noteq> 2 ^ k"
  proof
    assume "n = 2 ^ k"
    moreover have "(3::int) dvd n" by (simp add: n_def)
    ultimately have "(3::int) dvd 2 ^ k" by simp
    with not_3_dvd_pow2 show False by blast
  qed
  with k(2) have k2': "2 ^ k + 1 \<le> n" by simp
  define r :: rat where "r = of_int n"
  define c :: rat where "c = 3 * 2 ^ 53"
  define x where "x = r * (1 - 1 / c)"
  have cpos: "0 < c" by (simp add: c_def)
  note rb = rat_binade[OF k(2) k(3), folded r_def]
  from k2' have "(of_int (2 ^ k + 1) :: rat) \<le> of_int n" by (simp only: of_int_le_iff)
  then have lo1: "2 ^ k + 1 \<le> r" by (simp add: r_def)
  from pos have rpos: "0 < r" by (simp add: r_def)
  from n53 have "(of_int n :: rat) < of_int (2 ^ 53)" by (simp only: of_int_less_iff)
  then have "r < 2 ^ 53" by (simp add: r_def)
  then have rc: "r < c" by (simp add: c_def)
  have xr: "r - x = r / c" by (simp add: x_def algebra_simps)
  from rpos cpos have dpos: "0 < r / c" by simp
  from rc cpos have small: "r / c < 1" by simp
  have "f64_round x = Finite (of_int n)"
  proof (rule f64_round_near_int[OF k(1)])
    show "2 ^ k \<le> x" using lo1 small xr by linarith
    show "x < 2 ^ (k + 1)" using rb(2) dpos xr by linarith
    have "\<bar>x - r\<bar> = r / c" using dpos xr by linarith
    then have ab: "\<bar>x - of_int n\<bar> = r / c" by (simp only: r_def)
    have "r * 2 ^ (53 - k) < c"
    proof -
      from rb(2) have "r < 2 ^ (k + 1)" by linarith
      then have "r * 2 ^ (53 - k) < 2 ^ (k + 1) * 2 ^ (53 - k)"
        by (rule mult_strict_right_mono) simp
      then have "r * 2 ^ (53 - k) < 2 ^ 54" by (simp only: pow_split_54[OF k(1)])
      also have "(2::rat) ^ 54 < c" by (simp add: c_def)
      finally show ?thesis .
    qed
    then have "r * 2 ^ (53 - k) / c < 1" using cpos by simp
    then show "\<bar>x - of_int n\<bar> * 2 ^ (53 - k) < 1" unfolding ab by simp
  qed
  then show ?thesis by (simp only: x_def r_def c_def n_def)
qed




lemma lit_0_4_value: "lit_0_4 = Finite (4 / 10 * (1 + 1 / 2 ^ 54))"
proof -
  have "f64_round (4 / 10) = Finite (of_int 7205759403792794 * 2 powi (- 54))"
    by (rule f64_round_near) simp_all
  then show ?thesis by (simp add: lit_0_4_def)
qed

lemma lit_0_3_value: "lit_0_3 = Finite (3 / 10 * (1 - 1 / (3 * 2 ^ 53)))"
proof -
  have "f64_round (3 / 10) = Finite (of_int 5404319552844595 * 2 powi (- 54))"
    by (rule f64_round_near) simp_all
  then show ?thesis by (simp add: lit_0_3_def)
qed

lemma lit_1_2_value: "lit_1_2 = Finite (12 / 10 * (1 - 1 / (3 * 2 ^ 53)))"
proof -
  have "f64_round (12 / 10) = Finite (of_int 5404319552844595 * 2 powi (- 52))"
    by (rule f64_round_near) simp_all
  then show ?thesis by (simp add: lit_1_2_def)
qed

lemma lit_1_5_value: "lit_1_5 = Finite (3 / 2)"
proof -
  have "f64_round (15 / 10) = Finite (of_int 6755399441055744 * 2 powi (- 52))"
    by (rule f64_round_near) simp_all
  then show ?thesis by (simp add: lit_1_5_def)
qed

lemma lit_1_0_value: "lit_1_0 = Finite 1"
  using f64_round_exact[of 1] by (simp add: lit_1_0_def)

lemma lit_2_0_value: "lit_2_0 = Finite 2"
  using f64_round_exact[of 2] by (simp add: lit_2_0_def)

lemma lit_3_0_value: "lit_3_0 = Finite 3"
  using f64_round_exact[of 3] by (simp add: lit_3_0_def)




lemma float_of_int_exact: "0 \<le> n \<Longrightarrow> n < 2 ^ 53 \<Longrightarrow> float_of_int n = Inr (Finite (of_int n))"
  by (simp add: float_of_int_def f64_round_exact)

lemma fadd_exact:
  assumes "0 \<le> a" "0 \<le> b" "a + b < 2 ^ 53"
  shows "fadd (Finite (of_int a)) (Finite (of_int b)) = Finite (of_int (a + b))"
proof -
  from assms have "f64_round (of_int (a + b)) = Finite (of_int (a + b))"
    by (intro f64_round_exact) simp_all
  then show ?thesis by simp
qed

lemma base_times_0_4:
  assumes "0 \<le> d" "d * 1000 < 2 ^ 53"
  shows "fmul (Finite (of_int (d * 2500))) lit_0_4 = Finite (of_int (d * 1000))"
proof -
  have "(of_int (d * 2500) :: rat) * (4 / 10 * z) = of_int (d * 1000) * z" for z by simp
  then show ?thesis
    using f64_round_up[of "d * 1000"] assms by (simp add: lit_0_4_value)
qed

lemma base_times_0_3:
  assumes "0 \<le> d" "d * 750 < 2 ^ 53"
  shows "fmul (Finite (of_int (d * 2500))) lit_0_3 = Finite (of_int (d * 750))"
proof -
  have "(of_int (d * 2500) :: rat) * (3 / 10 * z) = of_int (3 * (d * 250)) * z" for z by simp
  then show ?thesis
    using f64_round_down[of "d * 250"] assms by (simp add: lit_0_3_value)
qed




lemma times_lit_1_0:
  assumes "0 \<le> n" "n < 2 ^ 53"
  shows "fmul (Finite (of_int n)) lit_1_0 = Finite (of_int n)"
  using f64_round_exact[OF assms] by (simp add: lit_1_0_value)

lemma times_lit_1_2:
  assumes "0 \<le> j" "6 * j < 2 ^ 53"
  shows "fmul (Finite (of_int (5 * j))) lit_1_2 = Finite (of_int (6 * j))"
proof -
  have "(of_int (5 * j) :: rat) * (12 / 10 * z) = of_int (3 * (2 * j)) * z" for z by simp
  then show ?thesis
    using f64_round_down[of "2 * j"] assms by (simp add: lit_1_2_value)
qed

lemma times_lit_1_5:
  assumes "0 \<le> j" "3 * j < 2 ^ 53"
  shows "fmul (Finite (of_int (2 * j))) lit_1_5 = Finite (of_int (3 * j))"
proof -
  have "(of_int (2 * j) :: rat) * (3 / 2) = of_int (3 * j)" by simp
  then show ?thesis
    using f64_round_exact[of "3 * j"] assms by (simp add: lit_1_5_value)
qed

lemma times_lit_2_0:
  assumes "0 \<le> n" "2 * n < 2 ^ 53"
  shows "fmul (Finite (of_int n)) lit_2_0 = Finite (of_int (2 * n))"
proof -
  have "(of_int n :: rat) * 2 = of_int (2 * n)" by simp
  then show ?thesis
    using f64_round_exact[of "2 * n"] assms by (simp add: lit_2_0_value mult.commute)
qed

lemma times_lit_3_0:
  assumes "0 \<le> n" "3 * n < 2 ^ 53"
  shows "fmul (Finite (of_int n)) lit_3_0 = Finite (of_int (3 * n))"
proof -
  have "(of_int n :: rat) * 3 = of_int (3 * n)" by simp
  then show ?thesis
    using f64_round_exact[of "3 * n"] assms by (simp add: lit_3_0_value mult.commute)
qed

lemma int_of_float_of_int: "int_of_float (Finite (of_int n)) = Inr n"
  by simp

lemma minimum_budget_exact:
  assumes d: "0 \<le> d" "d * 9500 < 2 ^ 53"
    and T: "0 \<le> T" "T \<le> d * 3500"
    and a: "fmul (Finite (of_int (d * 1000))) m = Finite (of_int a)" "0 \<le> a" "a \<le> d * 3000"
    and b: "fmul (Finite (of_int (d * 750))) m = Finite (of_int b)" "0 \<le> b" "b \<le> d * 2250"
  shows "minimum_budget_of d T m = Inr (T + a + d * 750 + b)"
proof -
  from d have base: "float_of_int (d * 2500) = Inr (Finite (of_int (d * 2500)))"
    by (intro float_of_int_exact) simp_all
  from d have acc: "fmul (Finite (of_int (d * 2500))) lit_0_4 = Finite (of_int (d * 1000))"
    by (intro base_times_0_4) simp_all
  from d have food: "fmul (Finite (of_int (d * 2500))) lit_0_3 = Finite (of_int (d * 750))"
    by (intro base_times_0_3) simp_all
  from d T have tr: "float_of_int T = Inr (Finite (of_int T))"
    by (intro float_of_int_exact) simp_all
  from d T a have s1: "fadd (Finite (of_int T)) (Finite (of_int a)) = Finite (of_int (T + a))"
    by (intro fadd_exact) simp_all
  from d T a have s2:
    "fadd (Finite (of_int (T + a))) (Finite (of_int (d * 750))) = Finite (of_int (T + a + d * 750))"
    by (intro fadd_exact) simp_all
  from d T a b have s3:
    "fadd (Finite (of_int (T + a + d * 750))) (Finite (of_int b))
       = Finite (of_int (T + a + d * 750 + b))"
    by (intro fadd_exact) simp_all
  show ?thesis
    unfolding minimum_budget_of_def int_times_float_def int_plus_float_def Let_def
    by (simp only: base tr acc food a(1) b(1) s1 s2 s3 sum.case int_of_float_of_int)
qed




lemma minimum_budget_for_multiplier:
  assumes d: "0 \<le> d" "d * 9500 < 2 ^ 53" and T: "0 \<le> T" "T \<le> d * 3500"
  shows "minimum_budget_of d T lit_1_0 = Inr (T + d * 2500)"
    and "minimum_budget_of d T lit_1_2 = Inr (T + d * 2850)"
    and "minimum_budget_of d T lit_1_5 = Inr (T + d * 3375)"
    and "minimum_budget_of d T lit_2_0 = Inr (T + d * 4250)"
    and "minimum_budget_of d T lit_3_0 = Inr (T + d * 6000)"
proof -
  have a_1_0: "fmul (Finite (of_int (d * 1000))) lit_1_0 = Finite (of_int (d * 1000))"
    using d by (intro times_lit_1_0) simp_all
  have b_1_0: "fmul (Finite (of_int (d * 750))) lit_1_0 = Finite (of_int (d * 750))"
    using d by (intro times_lit_1_0) simp_all
  have "minimum_budget_of d T lit_1_0 = Inr (T + d * 1000 + d * 750 + d * 750)"
    using d by (intro minimum_budget_exact[OF d T] a_1_0 b_1_0) simp_all
  then show "minimum_budget_of d T lit_1_0 = Inr (T + d * 2500)" by simp
  have a_1_2: "fmul (Finite (of_int (d * 1000))) lit_1_2 = Finite (of_int (d * 1200))"
  proof -
    have e: "5 * (d * 200) = d * 1000" "6 * (d * 200) = d * 1200" by simp_all
    have "fmul (Finite (of_int (5 * (d * 200)))) lit_1_2 = Finite (of_int (6 * (d * 200)))"
      using d by (intro times_lit_1_2) simp_all
    then show ?thesis by (simp only: e)
  qed
  have b_1_2: "fmul (Finite (of_int (d * 750))) lit_1_2 = Finite (of_int (d * 900))"
  proof -
    have e: "5 * (d * 150) = d * 750" "6 * (d * 150) = d * 900" by simp_all
    have "fmul (Finite (of_int (5 * (d * 150)))) lit_1_2 = Finite (of_int (6 * (d * 150)))"
      using d by (intro times_lit_1_2) simp_all
    then show ?thesis by (simp only: e)
  qed
  have "minimum_budget_of d T lit_1_2 = Inr (T + d * 1200 + d * 750 + d * 900)"
    using d by (intro minimum_budget_exact[OF d T] a_1_2 b_1_2) simp_all
  then show "minimum_budget_of d T lit_1_2 = Inr (T + d * 2850)" by simp
  have a_1_5: "fmul (Finite (of_int (d * 1000))) lit_1_5 = Finite (of_int (d * 1500))"
  proof -
    have e: "2 * (d * 500) = d * 1000" "3 * (d * 500) = d * 1500" by simp_all
    have "fmul (Finite (of_int (2 * (d * 500)))) lit_1_5 = Finite (of_int (3 * (d * 500)))"
      using d by (intro times_lit_1_5) simp_all
    then show ?thesis by (simp only: e)
  qed
  have b_1_5: "fmul (Finite (of_int (d * 750))) lit_1_5 = Finite (of_int (d * 1125))"
  proof -
    have e: "2 * (d * 375) = d * 750" "3 * (d * 375) = d * 1125" by simp_all
    have "fmul (Finite (of_int (2 * (d * 375)))) lit_1_5 = Finite (of_int (3 * (d * 375)))"
      using d by (intro times_lit_1_5) simp_all
    then show ?thesis by (simp only: e)
  qed
  have "minimum_budget_of d T lit_1_5 = Inr (T + d * 1500 + d * 750 + d * 1125)"
    using d by (intro minimum_budget_exact[OF d T] a_1_5 b_1_5) simp_all
  then show "minimum_budget_of d T lit_1_5 = Inr (T + d * 3375)" by simp
  have a_2_0: "fmul (Finite (of_int (d * 1000))) lit_2_0 = Finite (of_int (d * 2000))"
  proof -
    have e: "2 * (d * 1000) = d * 2000" by simp_all
    have "fmul (Finite (of_int (d * 1000))) lit_2_0 = Finite (of_int (2 * (d * 1000)))"
      using d by (intro times_lit_2_0) simp_all
    then show ?thesis by (simp only: e)
  qed
  have b_2_0: "fmul (Finite (of_int (d * 750))) lit_2_0 = Finite (of_int (d * 1500))"
  proof -
    have e: "2 * (d * 750) = d * 1500" by simp_all
    have "fmul (Finite (of_int (d * 750))) lit_2_0 = Finite (of_int (2 * (d * 750)))"
      using d by (intro times_lit_2_0) simp_all
    then show ?thesis by (simp only: e)
  qed
  have "minimum_budget_of d T lit_2_0 = Inr (T + d * 2000 + d * 750 + d * 1500)"
    using d by (intro minimum_budget_exact[OF d T] a_2_0 b_2_0) simp_all
  then show "minimum_budget_of d T lit_2_0 = Inr (T + d * 4250)" by simp
  have a_3_0: "fmul (Finite (of_int (d * 1000))) lit_3_0 = Finite (of_int (d * 3000))"
  proof -
    have e: "3 * (d * 1000) = d * 3000" by simp_all
    have "fmul (Finite (of_int (d * 1000))) lit_3_0 = Finite (of_int (3 * (d * 1000)))"
      using d by (intro times_lit_3_0) simp_all
    then show ?thesis by (simp only: e)
  qed
  have b_3_0: "fmul (Finite (of_int (d * 750))) lit_3_0 = Finite (of_int (d * 2250))"
  proof -
    have e: "3 * (d * 750) = d * 2250" by simp_all
    have "fmul (Finite (of_int (d * 750))) lit_3_0 = Finite (of_int (3 * (d * 750)))"
      using d by (intro times_lit_3_0) simp_all
    then show ?thesis by (simp only: e)
  qed
  have "minimum_budget_of d T lit_3_0 = Inr (T + d * 3000 + d * 750 + d * 2250)"
    using d by (intro minimum_budget_exact[OF d T] a_3_0 b_3_0) simp_all
  then show "minimum_budget_of d T lit_3_0 = Inr (T + d * 6000)" by simp
qed

subsection \<open>Reading the budget and the duration\<close>

lemma digit_value_nonneg: "is_digit c \<Longrightarrow> 0 \<le> digit_value c"
  by (simp add: is_digit_def digit_value_def)

lemma foldl_digits_nonneg:
  "0 \<le> n \<Longrightarrow> \<forall>c\<in>set s. is_digit c
     \<Longrightarrow> 0 \<le> foldl (\<lambda>n c. 10 * n + digit_value c) n s"
proof (induction s arbitrary: n)
  case Nil
  then show ?case by simp
next
  case (Cons c cs)
  from Cons.prems have "0 \<le> 10 * n + digit_value c"
    using digit_value_nonneg[of c] by simp
  with Cons show ?case by simp
qed

lemma int_of_digits_nonneg: "\<forall>c\<in>set s. is_digit c \<Longrightarrow> 0 \<le> int_of_digits s"
  unfolding int_of_digits_def by (rule foldl_digits_nonneg) simp_all

lemma findall_from_run:
  "run \<noteq> [] \<Longrightarrow>
     \<exists>rest. findall_digits_from run s = (run @ takeWhile is_digit s) # rest"
proof (induction s arbitrary: run)
  case Nil
  then show ?case by simp
next
  case (Cons c cs)
  show ?case
  proof (cases "is_digit c")
    case True
    from Cons.IH[of "run @ [c]"] obtain rest
      where "findall_digits_from (run @ [c]) cs = ((run @ [c]) @ takeWhile is_digit cs) # rest"
      by auto
    with True show ?thesis by simp
  next
    case False
    with Cons.prems show ?thesis by simp
  qed
qed

lemma findall_digits_none:
  "\<forall>c\<in>set s. \<not> is_digit c \<Longrightarrow> findall_digits_from [] s = []"
  by (induction s) simp_all

lemma findall_digits_some:
  "\<exists>c\<in>set s. is_digit c \<Longrightarrow>
     \<exists>rest. findall_digits_from [] s
       = takeWhile is_digit (dropWhile (\<lambda>c. \<not> is_digit c) s) # rest"
proof (induction s)
  case Nil
  then show ?case by simp
next
  case (Cons c cs)
  show ?case
  proof (cases "is_digit c")
    case True
    from findall_from_run[of "[c]" cs] obtain rest
      where "findall_digits_from [c] cs = ([c] @ takeWhile is_digit cs) # rest" by auto
    with True show ?thesis by simp
  next
    case False
    with Cons.prems have "\<exists>c\<in>set cs. is_digit c" by auto
    from Cons.IH[OF this] False show ?thesis by simp
  qed
qed

lemma first_digit_run_digits: "\<forall>c\<in>set (first_digit_run s). is_digit c"
  unfolding first_digit_run_def by (auto dest: set_takeWhileD)

lemma first_digit_run_Nil_iff: "first_digit_run s = [] \<longleftrightarrow> (\<forall>c\<in>set s. \<not> is_digit c)"
proof
  assume e: "first_digit_run s = []"
  show "\<forall>c\<in>set s. \<not> is_digit c"
  proof (rule ccontr)
    assume "\<not> (\<forall>c\<in>set s. \<not> is_digit c)"
    then have ne: "dropWhile (\<lambda>c. \<not> is_digit c) s \<noteq> []" by (simp add: dropWhile_eq_Nil_conv)
    then have "is_digit (hd (dropWhile (\<lambda>c. \<not> is_digit c) s))"
      using hd_dropWhile[of "\<lambda>c. \<not> is_digit c" s] by simp
    with ne have "takeWhile is_digit (dropWhile (\<lambda>c. \<not> is_digit c) s) \<noteq> []"
      by (cases "dropWhile (\<lambda>c. \<not> is_digit c) s") simp_all
    with e show False by (simp add: first_digit_run_def)
  qed
next
  assume "\<forall>c\<in>set s. \<not> is_digit c"
  then have d: "dropWhile (\<lambda>c. \<not> is_digit c) s = []" by (simp add: dropWhile_eq_Nil_conv)
  show "first_digit_run s = []" unfolding first_digit_run_def d by (rule takeWhile.simps(1))
qed

lemma py_int_eq:
  "py_int s = (if length s \<le> 4300 then Inr (int_of_digits s)
               else Inl (ValueError (digit_limit_message (length s))))"
  by (simp add: py_int_def int_max_str_digits_def)

lemma parse_duration_days_eq:
  "parse_duration_days s =
     (if length (first_digit_run s) \<le> 4300 then Inr (duration_days s)
      else Inl (ValueError (digit_limit_message (length (first_digit_run s)))))"
proof (cases "\<exists>c\<in>set s. is_digit c")
  case True
  from findall_digits_some[OF True] obtain rest
    where f: "findall_digits s = first_digit_run s # rest"
    unfolding findall_digits_def first_digit_run_def by blast
  from True have "first_digit_run s \<noteq> []" by (simp add: first_digit_run_Nil_iff)
  with f show ?thesis by (simp add: parse_duration_days_def py_int_eq duration_days_def)
next
  case False
  then have n: "findall_digits s = []"
    unfolding findall_digits_def by (intro findall_digits_none) simp
  from False have "first_digit_run s = []" by (simp add: first_digit_run_Nil_iff)
  with n show ?thesis by (simp add: parse_duration_days_def duration_days_def)
qed

lemma duration_days_nonneg: "0 \<le> duration_days s"
  unfolding duration_days_def
  using int_of_digits_nonneg[OF first_digit_run_digits[of s]] by simp

lemma concat_findall_from: "concat (findall_digits_from run s) = run @ filter is_digit s"
  by (induction s arbitrary: run) simp_all

lemma digit_not_currency: "is_digit c \<Longrightarrow> \<not> currency_class (Narrow c)"
  by (auto simp: is_digit_def is_space_def)

lemma filter_digits_cleaned: "filter is_digit (re_sub_currency b) = budget_digits b"
  by (induction b rule: budget_digits.induct) (auto dest: digit_not_currency)

lemma digits_after_cleaning: "concat (findall_digits (re_sub_currency b)) = budget_digits b"
  by (simp add: findall_digits_def concat_findall_from filter_digits_cleaned)

lemma int_of_digits_Nil: "int_of_digits [] = 0"
  by (simp add: int_of_digits_def)

lemma parse_budget_eq:
  "parse_budget b =
     (if length (budget_digits b) \<le> 4300 then Inr (int_of_digits (budget_digits b))
      else Inl (ValueError (digit_limit_message (length (budget_digits b)))))"
proof (cases "findall_digits (re_sub_currency b) = []")
  case True
  with digits_after_cleaning[of b] have "budget_digits b = []" by simp
  with True show ?thesis by (simp add: parse_budget_def int_of_digits_Nil)
next
  case False
  then show ?thesis by (simp add: parse_budget_def digits_after_cleaning py_int_eq)
qed

subsection \<open>The minimum budget\<close>

lemma theme_multiplier_cases:
  "get_or (dict_get theme_multipliers t) lit_1_2 =
     (if t = ''devotional'' then lit_1_0
      else if t = ''cultural'' then lit_1_2
      else if t = ''adventurous'' then lit_1_5
      else if t = ''nightlife'' then lit_2_0
      else if t = ''luxury'' then lit_3_0
      else lit_1_2)"
  by (auto simp: theme_multipliers_def get_or_def)

lemma code_minimum_value:
  assumes d: "0 \<le> d" "d * 9500 < 2 ^ 53" and T: "0 \<le> T" "T \<le> d * 3500"
  shows "minimum_budget_of d T (get_or (dict_get theme_multipliers t) lit_1_2)
           = Inr (T + d * daily_theme_cost t)"
  unfolding theme_multiplier_cases daily_theme_cost_def
  by (simp add: minimum_budget_for_multiplier[OF d T])

lemma spec_floor:
  fixes a m :: rat
  assumes "a + 1000 * m + 750 + 750 * m = of_int k"
  shows "\<lfloor>of_int d * a + of_int d * 2500 * (4 / 10) * m + of_int d * 2500 * (3 / 10)
           + of_int d * 2500 * (3 / 10) * m\<rfloor> = d * k"
proof -
  have "of_int d * a + of_int d * 2500 * (4 / 10) * m + of_int d * 2500 * (3 / 10)
           + of_int d * 2500 * (3 / 10) * m = of_int d * (a + 1000 * m + 750 + 750 * m)"
    by (simp add: algebra_simps)
  also have "\<dots> = of_int d * of_int k" by (simp only: assms)
  also have "\<dots> = of_int (d * k)" by simp
  finally show ?thesis by (simp only: floor_of_int)
qed

lemma spec_minimum_value:
  "spec_minimum_budget d tm th =
     (if py_lower tm = ''self'' then d * 1500 else d * 3500) + d * daily_theme_cost (py_lower th)"
proof -
  let ?A = "(if py_lower tm = ''self'' then 1500 else 3500) :: rat"
  let ?m = "spec_theme_multiplier (py_lower th)"
  let ?K = "(if py_lower tm = ''self'' then 1500 else 3500) + daily_theme_cost (py_lower th)"
  have total: "?A + 1000 * ?m + 750 + 750 * ?m = of_int ?K"
    by (simp add: spec_theme_multiplier_def daily_theme_cost_def)
  have "spec_minimum_budget d tm th = d * ?K"
    unfolding spec_minimum_budget_def Let_def by (rule spec_floor[OF total])
  also have "\<dots> = (if py_lower tm = ''self'' then d * 1500 else d * 3500)
                        + d * daily_theme_cost (py_lower th)"
    by (simp add: algebra_simps)
  finally show ?thesis .
qed

lemma minimum_budget_spec:
  assumes "0 \<le> d" "d * 9500 < 2 ^ 53"
  shows "minimum_budget_of d
           (if py_lower tm = ''self'' then d * 1500 else d * 3500)
           (get_or (dict_get theme_multipliers (py_lower th)) lit_1_2)
         = Inr (spec_minimum_budget d tm th)"
proof -
  let ?T = "if py_lower tm = ''self'' then d * 1500 else d * 3500"
  from assms(1) have T: "0 \<le> ?T" "?T \<le> d * 3500" by simp_all
  show ?thesis
    unfolding code_minimum_value[OF assms T] spec_minimum_value by simp
qed

lemma validate_budget_exact:
  assumes "length (budget_digits (get_or (ti_budget travel_input) (ustr ''0''))) \<le> 4300"
    and "length (first_digit_run (get_or (ti_duration travel_input) ''1'')) \<le> 4300"
    and "duration_days (get_or (ti_duration travel_input) ''1'') * 9500 < 2 ^ 53"
  shows "validate_budget travel_input =
     (let budget = int_of_digits (budget_digits (get_or (ti_budget travel_input) (ustr ''0'')));
          minimum = spec_minimum_budget
                      (duration_days (get_or (ti_duration travel_input) ''1''))
                      (get_or (ti_travel_mode travel_input) ''Self'')
                      (get_or (ti_theme travel_input) ''cultural'')
      in if budget \<ge> minimum
         then Sufficient budget minimum (budget - minimum) (sufficient_message (budget - minimum))
         else Insufficient budget minimum (minimum - budget)
                (insufficient_message minimum budget))"
proof -
  note m = minimum_budget_spec[OF duration_days_nonneg assms(3)]
  show ?thesis
    unfolding validate_budget_def Let_def parse_budget_eq parse_duration_days_eq
    using assms(1,2) by (simp add: m)
qed

text \<open>
  Claim C1, with the limits of \<open>int\<close> and of the doubles.  Take a travel input whose
  budget field has at most 4300 digits, whose duration field has a first run of at most
  4300 digits, and whose duration \<open>d\<close>, the number that run writes (1 when the field has
  no digit), satisfies \<open>9500 * d < 2 ^ 53\<close>.  Then \<open>validate_budget\<close> computes the minimum
  by the linear formula of the specification, in exact arithmetic: \<open>d\<close> times 1500 for the
  travel mode \<open>self\<close>, compared without case, and 3500 for any other mode, plus
  \<open>d * 2500 * 0.4 * m + d * 2500 * 0.3 + d * 2500 * 0.3 * m\<close>, truncated, where \<open>m\<close> is the
  multiplier of the lower-cased theme (devotional 1, cultural 1.2, adventurous 1.5,
  nightlife 2, luxury 3, any other theme 1.2).  It returns the status \<open>sufficient\<close> with
  the buffer \<open>budget - minimum\<close> exactly when the budget, the number written by all the
  digits of the budget field, is at least the minimum, and otherwise the status
  \<open>insufficient\<close> with the shortfall \<open>minimum - budget\<close>.  The bound on \<open>d\<close> keeps every
  intermediate value an integer below \<open>2 ^ 53\<close>, where the doubles of the code compute the
  formula exactly; the bounds on the digits keep \<open>int\<close> from raising.
\<close>

theorem validate_budget_minimum:
  assumes "length (budget_digits (get_or (ti_budget travel_input) (ustr ''0''))) \<le> 4300"
    and "length (first_digit_run (get_or (ti_duration travel_input) ''1'')) \<le> 4300"
    and "duration_days (get_or (ti_duration travel_input) ''1'') * 9500 < 2 ^ 53"
  shows "validate_budget travel_input =
     (let budget = int_of_digits (budget_digits (get_or (ti_budget travel_input) (ustr ''0'')));
          minimum = spec_minimum_budget
                      (duration_days (get_or (ti_duration travel_input) ''1''))
                      (get_or (ti_travel_mode travel_input) ''Self'')
                      (get_or (ti_theme travel_input) ''cultural'')
      in if budget \<ge> minimum
         then Sufficient budget minimum (budget - minimum) (sufficient_message (budget - minimum))
         else Insufficient budget minimum (minimum - budget)
                (insufficient_message minimum budget))"
  using assms by (rule validate_budget_exact)

subsection \<open>Beyond the range of the doubles\<close>

lemma ulp_exponent_overflow:
  assumes "2 powi 1024 \<le> x"
  shows "ulp_exponent x = None"
  unfolding ulp_exponent_def find_None_iff
proof (intro notI, elim exE conjE)
  fix e :: int
  assume e: "e \<in> set [- 1074..971]" and lt: "x < 2 powi (e + 53)"
  from e have "e \<le> 971" by (simp only: set_upto atLeastAtMost_iff)
  then have "e + 53 \<le> 1024" by simp
  then have "(2::rat) powi (e + 53) \<le> 2 powi 1024"
    by (intro power_int_increasing) simp_all
  with assms lt show False by linarith
qed

lemma f64_round_overflow: "2 powi 1024 \<le> x \<Longrightarrow> f64_round x = PosInf"
proof -
  assume a: "2 powi 1024 \<le> x"
  have "(0::rat) < 2 powi 1024" by (rule zero_less_power_int) simp
  with a have "\<not> x < 0" by linarith
  then show ?thesis
    by (simp add: f64_round_def f64_round_abs_def ulp_exponent_overflow[OF a])
qed

lemma float_of_int_overflow:
  "2 ^ 1024 \<le> n \<Longrightarrow> float_of_int n = Inl (OverflowError ''int too large to convert to float'')"
proof -
  assume "2 ^ 1024 \<le> n"
  then have "(of_int (2 ^ 1024) :: rat) \<le> of_int n" by (simp only: of_int_le_iff)
  then have "(2::rat) powi 1024 \<le> of_int n" by simp
  from f64_round_overflow[OF this] show ?thesis by (simp add: float_of_int_def)
qed

lemma foldl_digits_zeros:
  "foldl (\<lambda>n c. 10 * n + digit_value c) a (replicate k CHR ''0'') = a * 10 ^ k"
proof (induction k arbitrary: a)
  case 0
  show ?case by simp
next
  case (Suc k)
  have z: "digit_value CHR ''0'' = 0" by (simp add: digit_value_def)
  show ?case by (simp add: Suc z)
qed

lemma int_of_digits_one_zeros: "int_of_digits (CHR ''1'' # replicate k CHR ''0'') = 10 ^ k"
proof -
  have o: "digit_value CHR ''1'' = 1" by (simp add: digit_value_def)
  show ?thesis by (simp add: int_of_digits_def foldl_digits_zeros o)
qed

lemma first_digit_run_all: "\<forall>c\<in>set s. is_digit c \<Longrightarrow> first_digit_run s = s"
proof -
  assume a: "\<forall>c\<in>set s. is_digit c"
  then have "dropWhile (\<lambda>c. \<not> is_digit c) s = s" by (cases s) simp_all
  with a show ?thesis by (simp add: first_digit_run_def)
qed

lemma duration_one_zeros:
  "first_digit_run (CHR ''1'' # replicate k CHR ''0'') = CHR ''1'' # replicate k CHR ''0''"
  "duration_days (CHR ''1'' # replicate k CHR ''0'') = 10 ^ k"
proof -
  have d: "\<forall>c\<in>set (CHR ''1'' # replicate k CHR ''0''). is_digit c"
    by (auto simp: is_digit_def)
  show r: "first_digit_run (CHR ''1'' # replicate k CHR ''0'') = CHR ''1'' # replicate k CHR ''0''"
    by (rule first_digit_run_all[OF d])
  show "duration_days (CHR ''1'' # replicate k CHR ''0'') = 10 ^ k"
    unfolding duration_days_def r by (simp add: int_of_digits_one_zeros)
qed

lemma minimum_budget_overflow:
  "2 ^ 1024 \<le> d * 2500 \<Longrightarrow>
     minimum_budget_of d T m = Inl (OverflowError ''int too large to convert to float'')"
  by (simp add: minimum_budget_of_def int_times_float_def float_of_int_overflow)

lemma budget_20000: "parse_budget (ustr ''20000'') = Inr 20000"
  by code_simp

text \<open>
  The claim as stated, for every travel input, fails: a duration of \<open>10 ^ 305\<close> days makes
  \<open>duration * 2500\<close> too large for a double, the conversion raises, and the handler of
  \<open>validate_budget\<close> returns the status \<open>error\<close>.
\<close>

theorem validate_budget_error_counterexample:
  "validate_budget
     \<lparr>ti_source = Some ''Mumbai'', ti_destination = Some ''Goa'', ti_travel_mode = Some ''Self'',
      ti_budget = Some (ustr ''20000''), ti_theme = Some ''cultural'',
      ti_duration = Some (CHR ''1'' # replicate 305 CHR ''0''), ti_vehicle_type = Some ''car''\<rparr>
   = Budget_Error ''Budget validation failed: int too large to convert to float'' 10000"
proof -
  have "(2::int) ^ 1024 \<le> 10 ^ 305 * 2500" by simp
  from minimum_budget_overflow[OF this] show ?thesis
    by (simp add: validate_budget_def Let_def get_or_def budget_20000 parse_duration_days_eq
          duration_one_zeros budget_error_def)
qed

subsection \<open>Examples, and the reading of the budget\<close>

lemma first_run_three_days: "first_digit_run ''3 days'' = ''3''"
  by code_simp

lemma duration_three_days: "duration_days ''3 days'' = 3"
  by code_simp

lemma digits_rupee_15000: "budget_digits (Rupee_Sign # ustr ''15,000'') = ''15000''"
  by code_simp

lemma digits_15000: "budget_digits (ustr ''15,000'') = ''15000''"
  by code_simp

lemma value_15000: "int_of_digits ''15000'' = 15000"
  by code_simp

lemma lower_Self: "py_lower ''Self'' = ''self''"
  by code_simp

lemma lower_Cultural: "py_lower ''Cultural'' = ''cultural''"
  by code_simp

lemma message_1950:
  "sufficient_message 1950 = ''Budget is sufficient! You have '' @ [CHR 0xB9] @ ''1,950 buffer amount.''"
  by code_simp

text \<open>
  Three days of a cultural trip by own car on a budget written with the rupee sign.
\<close>

theorem validate_budget_minimum_witness:
  "length (budget_digits (get_or (ti_budget
      \<lparr>ti_source = Some ''Mumbai'', ti_destination = Some ''Goa'', ti_travel_mode = Some ''Self'',
       ti_budget = Some (Rupee_Sign # ustr ''15,000''), ti_theme = Some ''Cultural'',
       ti_duration = Some ''3 days'', ti_vehicle_type = Some ''car''\<rparr>) (ustr ''0''))) \<le> 4300
   \<and> length (first_digit_run (get_or (ti_duration
      \<lparr>ti_source = Some ''Mumbai'', ti_destination = Some ''Goa'', ti_travel_mode = Some ''Self'',
       ti_budget = Some (Rupee_Sign # ustr ''15,000''), ti_theme = Some ''Cultural'',
       ti_duration = Some ''3 days'', ti_vehicle_type = Some ''car''\<rparr>) ''1'')) \<le> 4300
   \<and> duration_days (get_or (ti_duration
      \<lparr>ti_source = Some ''Mumbai'', ti_destination = Some ''Goa'', ti_travel_mode = Some ''Self'',
       ti_budget = Some (Rupee_Sign # ustr ''15,000''), ti_theme = Some ''Cultural'',
       ti_duration = Some ''3 days'', ti_vehicle_type = Some ''car''\<rparr>) ''1'') * 9500 < 2 ^ 53
   \<and> validate_budget
      \<lparr>ti_source = Some ''Mumbai'', ti_destination = Some ''Goa'', ti_travel_mode = Some ''Self'',
       ti_budget = Some (Rupee_Sign # ustr ''15,000''), ti_theme = Some ''Cultural'',
       ti_duration = Some ''3 days'', ti_vehicle_type = Some ''car''\<rparr>
     = Sufficient 15000 13050 1950
         (''Budget is sufficient! You have '' @ [CHR 0xB9] @ ''1,950 buffer amount.'')"
  using validate_budget_minimum[of
      "\<lparr>ti_source = Some ''Mumbai'', ti_destination = Some ''Goa'', ti_travel_mode = Some ''Self'',
       ti_budget = Some (Rupee_Sign # ustr ''15,000''), ti_theme = Some ''Cultural'',
       ti_duration = Some ''3 days'', ti_vehicle_type = Some ''car''\<rparr>"]
  by (simp add: get_or_def first_run_three_days duration_three_days digits_15000
        value_15000 spec_minimum_value lower_Self lower_Cultural daily_theme_cost_def
        message_1950)

lemma parse_budget_range: "parse_budget (ustr ''15000-20000'') = Inr 1500020000"
  by code_simp

lemma parse_budget_decimal: "parse_budget (ustr ''2500.50'') = Inr 250050"
  by code_simp

lemma parse_budget_rupee: "parse_budget (Rupee_Sign # ustr ''15,000'') = Inr 15000"
  by code_simp

lemma validate_budget_no_digits:
  assumes "budget_digits (get_or (ti_budget travel_input) (ustr ''0'')) = []"
    and "status (validate_budget travel_input) \<noteq> ''error''"
    and "0 < minimum_required (validate_budget travel_input)"
  shows "status (validate_budget travel_input) = ''insufficient''
         \<and> provided_budget (validate_budget travel_input) = 0"
proof -
  from assms(1) have b: "parse_budget (get_or (ti_budget travel_input) (ustr ''0'')) = Inr 0"
    by (simp add: parse_budget_eq int_of_digits_Nil)
  from assms(2,3) show ?thesis
    unfolding validate_budget_def Let_def b budget_error_def
    by (auto split: sum.splits if_splits)
qed

lemma budget_digits_nines: "budget_digits (ustr (replicate n CHR ''9'')) = replicate n CHR ''9''"
  by (induction n) (simp_all add: ustr_def is_digit_def)

lemma digit_limit_message_4301:
  "digit_limit_message 4301 =
     ''Exceeds the limit (4300 digits) for integer string ''
     @ ''conversion: value has 4301 digits; use sys.set_int_max_str_digits() to increase ''
     @ ''the limit''"
  by code_simp

lemma parse_budget_nines:
  "parse_budget (ustr (replicate 4301 CHR ''9'')) = Inl (ValueError (digit_limit_message 4301))"
  by (simp add: parse_budget_eq budget_digits_nines)

lemma validate_budget_digit_limit:
  assumes "4300 < length (budget_digits (get_or (ti_budget travel_input) (ustr ''0'')))"
  shows "validate_budget travel_input =
           Budget_Error (''Budget validation failed: '' @ digit_limit_message
              (length (budget_digits (get_or (ti_budget travel_input) (ustr ''0''))))) 10000"
  using assms unfolding validate_budget_def parse_budget_eq
  by (simp add: budget_error_def)

lemma validate_budget_nines:
  "validate_budget
     \<lparr>ti_source = Some ''Mumbai'', ti_destination = Some ''Goa'', ti_travel_mode = Some ''Self'',
      ti_budget = Some (ustr (replicate 4301 CHR ''9'')), ti_theme = Some ''cultural'',
      ti_duration = Some ''3 days'', ti_vehicle_type = Some ''car''\<rparr>
   = Budget_Error
       (''Budget validation failed: Exceeds the limit (4300 digits) for integer string ''
        @ ''conversion: value has 4301 digits; use sys.set_int_max_str_digits() to increase ''
        @ ''the limit'') 10000"
  by (simp add: validate_budget_def get_or_def parse_budget_nines budget_error_def
        digit_limit_message_4301)

lemma validate_budget_no_digits_example:
  "validate_budget
     \<lparr>ti_source = Some ''Mumbai'', ti_destination = Some ''Goa'', ti_travel_mode = Some ''Self'',
      ti_budget = Some (ustr ''cheap''), ti_theme = Some ''Cultural'',
      ti_duration = Some ''3 days'', ti_vehicle_type = Some ''car''\<rparr>
   = Insufficient 0 13050 13050 (insufficient_message 13050 0)"
proof -
  have b: "budget_digits (ustr ''cheap'') = []" by code_simp
  show ?thesis
    using validate_budget_exact[of
      "\<lparr>ti_source = Some ''Mumbai'', ti_destination = Some ''Goa'', ti_travel_mode = Some ''Self'',
      ti_budget = Some (ustr ''cheap''), ti_theme = Some ''Cultural'',
      ti_duration = Some ''3 days'', ti_vehicle_type = Some ''car''\<rparr>"]
    by (simp add: get_or_def first_run_three_days duration_three_days b int_of_digits_Nil
          spec_minimum_value lower_Self lower_Cultural daily_theme_cost_def)
qed

text \<open>
  Claim C10, with the limit of \<open>int\<close>.  \<open>validate_budget\<close> reads the budget field by deleting
  the rupee sign, \<open>R\<close>, \<open>s\<close>, the comma and whitespace and joining the remaining runs of
  digits; what it joins is the string of all the digits of the field, in their order.
  When that string has at most 4300 digits, the budget is the number it writes:
  \<open>15000-20000\<close> is read as 1500020000, \<open>2500.50\<close> as 250050, the rupee sign before
  \<open>15,000\<close> as 15000, and a field without a digit as 0, which is reported as insufficient
  whenever the validation does not end in an error and computes a positive minimum.
  When the string has more than 4300 digits, \<open>int\<close> raises a \<open>ValueError\<close> and
  \<open>validate_budget\<close> returns the status \<open>error\<close> with the message of the exception and the
  minimum 10000.
\<close>

theorem parse_budget_concatenates:
  "concat (findall_digits (re_sub_currency b)) = budget_digits b
   \<and> parse_budget b =
       (if length (budget_digits b) \<le> 4300 then Inr (int_of_digits (budget_digits b))
        else Inl (ValueError (digit_limit_message (length (budget_digits b)))))
   \<and> parse_budget (ustr ''15000-20000'') = Inr 1500020000
   \<and> parse_budget (ustr ''2500.50'') = Inr 250050
   \<and> parse_budget (Rupee_Sign # ustr ''15,000'') = Inr 15000
   \<and> (budget_digits b = [] \<longrightarrow> parse_budget b = Inr 0)
   \<and> (budget_digits (get_or (ti_budget travel_input) (ustr ''0'')) = []
        \<and> status (validate_budget travel_input) \<noteq> ''error''
        \<and> 0 < minimum_required (validate_budget travel_input)
        \<longrightarrow> status (validate_budget travel_input) = ''insufficient''
            \<and> provided_budget (validate_budget travel_input) = 0)
   \<and> (4300 < length (budget_digits (get_or (ti_budget travel_input) (ustr ''0'')))
        \<longrightarrow> validate_budget travel_input =
              Budget_Error (''Budget validation failed: '' @ digit_limit_message
                (length (budget_digits (get_or (ti_budget travel_input) (ustr ''0''))))) 10000)"
proof -
  have none: "budget_digits b = [] \<longrightarrow> parse_budget b = Inr 0"
    by (simp add: parse_budget_eq int_of_digits_Nil)
  from digits_after_cleaning[of b] parse_budget_eq[of b] parse_budget_range parse_budget_decimal
    parse_budget_rupee none validate_budget_no_digits[of travel_input]
    validate_budget_digit_limit[of travel_input]
  show ?thesis by blast
qed

text \<open>
  The claim as stated, for every budget field, fails on a budget of 4301 digits: no number
  is read, \<open>int\<close> raises, and the handler of \<open>validate_budget\<close> returns the status \<open>error\<close>.
\<close>

theorem parse_budget_limit_counterexample:
  "validate_budget
     \<lparr>ti_source = Some ''Mumbai'', ti_destination = Some ''Goa'', ti_travel_mode = Some ''Self'',
      ti_budget = Some (ustr (replicate 4301 CHR ''9'')), ti_theme = Some ''cultural'',
      ti_duration = Some ''3 days'', ti_vehicle_type = Some ''car''\<rparr>
   = Budget_Error
       (''Budget validation failed: Exceeds the limit (4300 digits) for integer string ''
        @ ''conversion: value has 4301 digits; use sys.set_int_max_str_digits() to increase ''
        @ ''the limit'') 10000"
  by (rule validate_budget_nines)

text \<open>
  A budget field without a digit and a budget field of 4301 digits, for the same trip of
  three days.
\<close>

theorem parse_budget_concatenates_witness:
  "budget_digits (ustr ''cheap'') = []
   \<and> parse_budget (ustr ''cheap'') = Inr 0
   \<and> validate_budget
        \<lparr>ti_source = Some ''Mumbai'', ti_destination = Some ''Goa'', ti_travel_mode = Some ''Self'',
      ti_budget = Some (ustr ''cheap''), ti_theme = Some ''Cultural'',
      ti_duration = Some ''3 days'', ti_vehicle_type = Some ''car''\<rparr>
      = Insufficient 0 13050 13050 (insufficient_message 13050 0)
   \<and> 4300 < length (budget_digits (ustr (replicate 4301 CHR ''9'')))
   \<and> status (validate_budget
        \<lparr>ti_source = Some ''Mumbai'', ti_destination = Some ''Goa'', ti_travel_mode = Some ''Self'',
      ti_budget = Some (ustr (replicate 4301 CHR ''9'')), ti_theme = Some ''cultural'',
      ti_duration = Some ''3 days'', ti_vehicle_type = Some ''car''\<rparr>) = ''error''"
proof -
  have b: "budget_digits (ustr ''cheap'') = []" by code_simp
  from b
    parse_budget_concatenates[of "ustr ''cheap''"
      "\<lparr>ti_source = Some ''Mumbai'', ti_destination = Some ''Goa'', ti_travel_mode = Some ''Self'',
      ti_budget = Some (ustr ''cheap''), ti_theme = Some ''Cultural'',
      ti_duration = Some ''3 days'', ti_vehicle_type = Some ''car''\<rparr>"]
    parse_budget_concatenates[of "ustr ''cheap''"
      "\<lparr>ti_source = Some ''Mumbai'', ti_destination = Some ''Goa'', ti_travel_mode = Some ''Self'',
      ti_budget = Some (ustr (replicate 4301 CHR ''9'')), ti_theme = Some ''cultural'',
      ti_duration = Some ''3 days'', ti_vehicle_type = Some ''car''\<rparr>"]
  show ?thesis
    by (simp add: validate_budget_no_digits_example validate_budget_nines get_or_def
          int_of_digits_Nil budget_digits_nines)
qed

end
